theory Spec2Isabelle
  imports Main "HOL-Library.Word" "HOL-Library.Multiset" "HOL-Library.List_Lexorder"
    "HOL-Library.Char_ord" "HOL-Library.Log_Nat"
begin

unbundle bit_operations_syntax

section \<open>Conventions of the embedding\<close>

text \<open>
  The Go sources of myDvpn are embedded function by function. A Go \<^verbatim>\<open>error\<close> is its
  message text; a function returning \<^verbatim>\<open>(T, error)\<close> returns \<open>string + T\<close> with \<open>Inl\<close>
  the error. A struct is a record whose fields carry a short prefix where two structs
  of the program share a field name. Mutation through a receiver pointer is state
  passing: a method takes the struct and returns the updated struct. What the program
  reads from the outside world (the clock, the outcome of a dial, of a \<^verbatim>\<open>stream.Send\<close>, of
  a WireGuard device call, the order in which the runtime ranges over a map) is an
  argument of the function that reads it.

  \<^verbatim>\<open>time.Time\<close> is the number of nanoseconds since the Unix epoch and
  \<^verbatim>\<open>time.Duration\<close> a number of nanoseconds, both as \<open>int\<close> (no computation below comes
  near the 64-bit range, except the latency of a ping, which is a 64-bit word).
\<close>

type_synonym time = int
type_synonym duration = int

definition Second :: duration where
  "Second = 1000000000"

definition Minute :: duration where
  "Minute = 60 * Second"

definition Unix :: "time \<Rightarrow> int" where
  "Unix t = t div 1000000000"

definition UnixMilli :: "time \<Rightarrow> int" where
  "UnixMilli t = t div 1000000"

definition UnixNano :: "time \<Rightarrow> int" where
  "UnixNano t = t"

section \<open>Decimal text\<close>

text \<open>
  \<^verbatim>\<open>%d\<close> of \<^verbatim>\<open>fmt.Sprintf\<close> and the octets of \<^verbatim>\<open>net.IP.String\<close> print a number in
  decimal. \<open>itoa\<close> prints a natural number, \<open>itoa_int\<close> an integer with its sign.
\<close>

definition digit :: "nat \<Rightarrow> char" where
  "digit d = ''0123456789'' ! d"

fun itoa :: "nat \<Rightarrow> string" where
  "itoa n = (if n < 10 then [digit n] else itoa (n div 10) @ [digit (n mod 10)])"

declare itoa.simps [simp del]

definition itoa_int :: "int \<Rightarrow> string" where
  "itoa_int i = (if i < 0 then CHR ''-'' # itoa (nat (- i)) else itoa (nat i))"









section \<open>IP address allocation: \<^verbatim>\<open>utils/ip.go\<close>\<close>

text \<open>
  The pools of the program are IPv4 blocks (\<^verbatim>\<open>10.8.0.0/24\<close> for the relay of a
  coordinator, \<^verbatim>\<open>10.9.0.0/24\<close> for a peer in exit mode). For an IPv4 block
  \<^verbatim>\<open>net.ParseCIDR\<close> yields a 4-byte address and a 4-byte mask; the four bytes, most
  significant first, are a 32-bit word here. \<^verbatim>\<open>net.ParseCIDR\<close> belongs to the Go library,
  so the functions below take it as the argument \<open>ParseCIDR\<close>: \<open>Inl\<close> its error text, or
  \<open>Inr (a, ones)\<close> the address \<open>a\<close> written in the text and the prefix length \<open>ones\<close>.
  \<open>ipNetOf\<close> is the \<^verbatim>\<open>*net.IPNet\<close> the library builds from them: the mask is
  \<^verbatim>\<open>net.CIDRMask(ones, 32)\<close> and the address is masked.
\<close>

record IPNet =
  net_IP :: "32 word"
  net_Mask :: "32 word"

definition CIDRMask :: "nat \<Rightarrow> 32 word" where
  "CIDRMask ones = NOT (mask (32 - ones))"

definition Mask :: "32 word \<Rightarrow> 32 word \<Rightarrow> 32 word" where
  "Mask ip m = ip AND m"

definition ipNetOf :: "32 word \<Rightarrow> nat \<Rightarrow> IPNet" where
  "ipNetOf a ones = \<lparr> net_IP = Mask a (CIDRMask ones), net_Mask = CIDRMask ones \<rparr>"

definition Contains :: "IPNet \<Rightarrow> 32 word \<Rightarrow> bool" where
  "Contains n ip = (net_IP n AND net_Mask n = ip AND net_Mask n)"

text \<open>
  \<^verbatim>\<open>ip.String()\<close> of a 4-byte address: the four octets in decimal, joined by dots.
\<close>

definition octet :: "32 word \<Rightarrow> nat \<Rightarrow> nat" where
  "octet ip i = unat (drop_bit (8 * (3 - i)) ip AND 255)"

definition IP_String :: "32 word \<Rightarrow> string" where
  "IP_String ip = itoa (octet ip 0) @ ''.'' @ itoa (octet ip 1) @ ''.'' @ itoa (octet ip 2)
                  @ ''.'' @ itoa (octet ip 3)"

text \<open>
  \<^verbatim>\<open>incIP\<close> adds one to the last byte and carries into the bytes before it while a byte
  wraps to zero: on the 32-bit word that is adding one, with 255.255.255.255 wrapping
  to 0.0.0.0. \<^verbatim>\<open>getBroadcast\<close> ors every byte with the complement of its mask byte.
\<close>

definition incIP :: "32 word \<Rightarrow> 32 word" where
  "incIP ip = ip + 1"

definition getBroadcast :: "IPNet \<Rightarrow> 32 word" where
  "getBroadcast n = net_IP n OR NOT (net_Mask n)"

text \<open>
  \<^verbatim>\<open>usedIPs\<close> is a \<^verbatim>\<open>map[string]bool\<close>; reading a key that is absent yields \<^verbatim>\<open>false\<close>.
\<close>

definition lookup :: "(string \<rightharpoonup> bool) \<Rightarrow> string \<Rightarrow> bool" where
  "lookup m k = (case m k of Some b \<Rightarrow> b | None \<Rightarrow> False)"

text \<open>
  The \<^verbatim>\<open>for\<close> loop of \<^verbatim>\<open>AllocateClientIP\<close>, from the address \<open>ip\<close> on: \<open>Some (Some s)\<close>
  when it returns the address text \<open>s\<close>, \<open>Some None\<close> when it leaves the block and falls
  through to the error, \<open>None\<close> when it runs forever (the block \<^verbatim>\<open>0.0.0.0/0\<close> contains
  every address, so the loop wraps around and only ends by finding a free address).
\<close>

partial_function (option) scan ::
  "IPNet \<Rightarrow> (string \<rightharpoonup> bool) \<Rightarrow> 32 word \<Rightarrow> string option option"
where
  "scan ipNet usedIPs ip =
     (if Contains ipNet ip then
        (if ip = net_IP ipNet \<or> ip = getBroadcast ipNet then scan ipNet usedIPs (incIP ip)
         else if \<not> lookup usedIPs (IP_String ip) then Some (Some (IP_String ip))
         else scan ipNet usedIPs (incIP ip))
      else Some None)"

definition AllocateClientIP ::
  "(string \<Rightarrow> string + 32 word \<times> nat) \<Rightarrow> string \<Rightarrow> (string \<rightharpoonup> bool) \<Rightarrow> (string + string) option"
where
  "AllocateClientIP ParseCIDR cidr usedIPs =
     (case ParseCIDR cidr of
        Inl e \<Rightarrow> Some (Inl (''invalid CIDR: '' @ e))
      | Inr (a, ones) \<Rightarrow>
          (let ipNet = ipNetOf a ones in
           case scan ipNet usedIPs (Mask (net_IP ipNet) (net_Mask ipNet)) of
             None \<Rightarrow> None
           | Some None \<Rightarrow> Some (Inl (''no available IP addresses in CIDR '' @ cidr))
           | Some (Some ipStr) \<Rightarrow> Some (Inr ipStr)))"

text \<open>
  \<^verbatim>\<open>IPAllocator\<close> is declared twice, word for word, in \<^verbatim>\<open>super/dataplane/wg.go\<close> and in
  \<^verbatim>\<open>clientPeer/client/unified_peer.go\<close>; one record stands for both. The mutex makes
  each method one step.
\<close>

record IPAllocator =
  ia_cidr :: string
  usedIPs :: "string \<rightharpoonup> bool"

definition NewIPAllocator :: "string \<Rightarrow> IPAllocator" where
  "NewIPAllocator cidr = \<lparr> ia_cidr = cidr, usedIPs = Map.empty \<rparr>"

definition AllocateIP ::
  "(string \<Rightarrow> string + 32 word \<times> nat) \<Rightarrow> IPAllocator \<Rightarrow> ((string + string) \<times> IPAllocator) option"
where
  "AllocateIP ParseCIDR ia =
     (case AllocateClientIP ParseCIDR (ia_cidr ia) (usedIPs ia) of
        None \<Rightarrow> None
      | Some (Inl err) \<Rightarrow> Some (Inl err, ia)
      | Some (Inr ip) \<Rightarrow> Some (Inr ip, ia\<lparr> usedIPs := (usedIPs ia)(ip \<mapsto> True) \<rparr>))"

definition ReleaseIP :: "IPAllocator \<Rightarrow> string \<Rightarrow> IPAllocator" where
  "ReleaseIP ia ip = ia\<lparr> usedIPs := (usedIPs ia)(ip := None) \<rparr>"

text \<open>
  What \<^verbatim>\<open>net.ParseCIDR\<close> answers for the pool texts used below.
\<close>

definition ParseCIDR0 :: "string \<Rightarrow> string + 32 word \<times> nat" where
  "ParseCIDR0 s = (if s = ''10.9.0.0/30'' then Inr (0x0A090000, 30)
                   else if s = ''10.9.0.0/24'' then Inr (0x0A090000, 24)
                   else if s = ''10.8.0.0/24'' then Inr (0x0A080000, 24)
                   else if s = ''10.9.0.1/32'' then Inr (0x0A090001, 32)
                   else if s = ''10.8.0.1/32'' then Inr (0x0A080001, 32)
                   else if s = ''0.0.0.0/0'' then Inr (0, 0)
                   else Inl (''invalid CIDR address: '' @ s))"

subsection \<open>The address text determines the address\<close>



subsection \<open>What the loop returns\<close>

lemma scan_sound:
  "scan ipNet used ip = Some r \<Longrightarrow> r = Some s \<Longrightarrow>
   \<exists>a. s = IP_String a \<and> Contains ipNet a \<and> a \<noteq> net_IP ipNet \<and> a \<noteq> getBroadcast ipNet
       \<and> \<not> lookup used s"
proof (induction rule: scan.raw_induct[rotated 1, consumes 1])
  case (1 scan ipNet used ip r)
  then show ?case
    by (auto split: if_splits)
qed

subsection \<open>The loop leaves a block that is not the whole address space\<close>













subsection \<open>\<^verbatim>\<open>AllocateClientIP\<close> and the allocator\<close>

lemma AllocateClientIP_sound:
  assumes "AllocateClientIP ParseCIDR cidr used = Some (Inr ip)"
  shows "\<exists>a ones x. ParseCIDR cidr = Inr (a, ones) \<and> ip = IP_String x
          \<and> Contains (ipNetOf a ones) x \<and> x \<noteq> net_IP (ipNetOf a ones)
          \<and> x \<noteq> getBroadcast (ipNetOf a ones) \<and> \<not> lookup used ip"
  using assms
  by (auto simp: AllocateClientIP_def Let_def split: sum.splits option.splits
      dest!: scan_sound[OF _ refl])



lemmas ip_eval = AllocateIP_def AllocateClientIP_def ParseCIDR0_def ipNetOf_def Mask_def
  CIDRMask_def mask_eq_exp_minus_1 scan.simps Contains_def getBroadcast_def incIP_def
  lookup_def IP_String_def octet_def itoa.simps digit_def Let_def




subsection \<open>Sequences of allocations and releases\<close>

text \<open>
  The callers of an allocator call \<^verbatim>\<open>AllocateIP\<close> and \<^verbatim>\<open>ReleaseIP\<close> in some order, one
  call at a time (the mutex). \<open>run\<close> performs such a sequence and records what each call
  did: the address handed out, the error returned, or the address released. It is \<open>None\<close>
  when one of the allocations does not return.
\<close>

datatype request = Allocate | Release string

datatype event = Allocated string | Refused string | Released string

fun run ::
  "(string \<Rightarrow> string + 32 word \<times> nat) \<Rightarrow> IPAllocator \<Rightarrow> request list \<Rightarrow>
   (event list \<times> IPAllocator) option"
where
  "run ParseCIDR ia [] = Some ([], ia)"
| "run ParseCIDR ia (Allocate # rs) =
     (case AllocateIP ParseCIDR ia of
        None \<Rightarrow> None
      | Some (Inl err, ia') \<Rightarrow>
          (case run ParseCIDR ia' rs of
             None \<Rightarrow> None
           | Some (es, ia'') \<Rightarrow> Some (Refused err # es, ia''))
      | Some (Inr ip, ia') \<Rightarrow>
          (case run ParseCIDR ia' rs of
             None \<Rightarrow> None
           | Some (es, ia'') \<Rightarrow> Some (Allocated ip # es, ia'')))"
| "run ParseCIDR ia (Release ip # rs) =
     (case run ParseCIDR (ReleaseIP ia ip) rs of
        None \<Rightarrow> None
      | Some (es, ia'') \<Rightarrow> Some (Released ip # es, ia''))"


lemma AllocateIP_Inl: "AllocateIP P ia = Some (Inl err, ia') \<Longrightarrow> ia' = ia"
  by (auto simp: AllocateIP_def split: option.splits sum.splits)

lemma AllocateIP_marks:
  assumes "AllocateIP P ia = Some (Inr ip, ia')"
  shows "ip \<notin> {s. lookup (usedIPs ia) s}"
    and "{s. lookup (usedIPs ia') s} = insert ip {s. lookup (usedIPs ia) s}"
    and "ia_cidr ia' = ia_cidr ia"
proof -
  from assms have c: "AllocateClientIP P (ia_cidr ia) (usedIPs ia) = Some (Inr ip)"
    and ia': "ia' = ia\<lparr> usedIPs := (usedIPs ia)(ip \<mapsto> True) \<rparr>"
    by (auto simp: AllocateIP_def split: option.splits sum.splits)
  from AllocateClientIP_sound[OF c] show "ip \<notin> {s. lookup (usedIPs ia) s}" by auto
  show "{s. lookup (usedIPs ia') s} = insert ip {s. lookup (usedIPs ia) s}"
    by (auto simp: ia' lookup_def)
  show "ia_cidr ia' = ia_cidr ia" by (simp add: ia')
qed



lemma ia_cidr_ReleaseIP [simp]: "ia_cidr (ReleaseIP ia ip) = ia_cidr ia"
  by (simp add: ReleaseIP_def)





lemma run_cidr: "run P ia rs = Some (es, ia') \<Longrightarrow> ia_cidr ia' = ia_cidr ia"
proof (induction rs arbitrary: ia es)
  case Nil
  then show ?case by simp
next
  case (Cons r rs)
  show ?case
  proof (cases r)
    case Allocate
    with Cons.prems obtain res ia1 es1 where
      a: "AllocateIP P ia = Some (res, ia1)" and r1: "run P ia1 rs = Some (es1, ia')"
      by (auto split: option.splits sum.splits)
    from a have "ia_cidr ia1 = ia_cidr ia"
      by (cases res) (auto dest: AllocateIP_Inl AllocateIP_marks(3))
    with Cons.IH[OF r1] show ?thesis by simp
  next
    case (Release ip)
    with Cons.prems obtain es1 where
      r1: "run P (ReleaseIP ia ip) rs = Some (es1, ia')"
      by (auto split: option.splits)
    from Cons.IH[OF r1] show ?thesis by simp
  qed
qed




subsection \<open>The block that is the whole address space\<close>











section \<open>WireGuard device calls: \<^verbatim>\<open>utils/wgutil.go\<close>\<close>

text \<open>
  \<^verbatim>\<open>WireGuardManager.AddPeer\<close> parses the key with \<^verbatim>\<open>wgtypes.ParseKey\<close>, resolves the
  endpoint, if one is given, with \<^verbatim>\<open>net.ResolveUDPAddr\<close>, parses every allowed address
  with \<^verbatim>\<open>net.ParseCIDR\<close>, and then configures the kernel device through \<^verbatim>\<open>wgctrl\<close>; the
  first of these that fails ends the call with its error, wrapped. The three parsers
  belong to libraries and the device to the kernel: \<open>ParseKey\<close> and \<open>ResolveUDPAddr\<close>
  give the error text of the library for a text, if any, and \<open>ConfigureDevice\<close> is the
  error of the device call, if any, should the call be made. What the device then holds
  is recorded as the list of the peer configurations that were added (interface name,
  configuration), in order.
\<close>

record PeerConfig =
  pc_PublicKey :: string
  pc_Endpoint :: string
  pc_AllowedIPs :: "string list"

type_synonym device = "(string \<times> PeerConfig) list"

record wgctrl =
  ParseKey :: "string \<Rightarrow> string option"
  ResolveUDPAddr :: "string \<Rightarrow> string option"
  ConfigureDevice :: "string option"

definition AddPeer ::
  "(string \<Rightarrow> string + 32 word \<times> nat) \<Rightarrow> wgctrl \<Rightarrow> device \<Rightarrow> string \<Rightarrow> PeerConfig \<Rightarrow>
   string option \<times> device"
where
  "AddPeer ParseCIDR wg dev interfaceName peerConfig =
     (case ParseKey wg (pc_PublicKey peerConfig) of
        Some err \<Rightarrow> (Some (''invalid public key: '' @ err), dev)
      | None \<Rightarrow>
          (case (if pc_Endpoint peerConfig \<noteq> []
                 then ResolveUDPAddr wg (pc_Endpoint peerConfig) else None) of
             Some err \<Rightarrow> (Some (''invalid endpoint: '' @ err), dev)
           | None \<Rightarrow>
               (case find (\<lambda>ipStr. isl (ParseCIDR ipStr)) (pc_AllowedIPs peerConfig) of
                  Some ipStr \<Rightarrow>
                    (Some (''invalid allowed IP '' @ ipStr @ '': '' @ projl (ParseCIDR ipStr)), dev)
                | None \<Rightarrow>
                    (case ConfigureDevice wg of
                       Some err \<Rightarrow>
                         (Some (''failed to add peer to '' @ interfaceName @ '': '' @ err), dev)
                     | None \<Rightarrow> (None, dev @ [(interfaceName, peerConfig)])))))"

lemma AddPeer_cases:
  "(\<exists>e. AddPeer P wg dev i pc = (Some e, dev)) \<or> AddPeer P wg dev i pc = (None, dev @ [(i, pc)])"
  by (simp add: AddPeer_def split: option.splits)

lemma AddPeer_Some: "AddPeer P wg dev i pc = (Some e, dev') \<Longrightarrow> dev' = dev"
  using AddPeer_cases[of P wg dev i pc] by auto

lemma AddPeer_None: "AddPeer P wg dev i pc = (None, dev') \<Longrightarrow> dev' = dev @ [(i, pc)]"
  using AddPeer_cases[of P wg dev i pc] by auto

text \<open>
  A \<^verbatim>\<open>for _, v := range m\<close> loop visits the entries of a Go map in an order the runtime
  chooses. \<open>order\<close> is that order, as the list of the keys visited; \<open>rangeValues\<close> is
  the sequence of values the loop body sees.
\<close>

definition rangeValues :: "('k \<rightharpoonup> 'v) \<Rightarrow> 'k list \<Rightarrow> 'v list" where
  "rangeValues m order = List.map_filter m order"

section \<open>Relay dataplane of a coordinator: \<^verbatim>\<open>super/dataplane/wg.go\<close>\<close>

record PeerInfo =
  pi_PeerID :: string
  pi_PublicKey :: string
  pi_ClientID :: string
  pi_AllocatedIP :: string
  pi_AllowedIPs :: "string list"
  pi_SessionID :: string

record WireGuardDataplane =
  wd_interfaceName :: string
  wd_listenPort :: int
  activePeers :: "string \<rightharpoonup> PeerInfo"
  wd_ipAllocator :: IPAllocator
  wd_device :: device

definition NewWireGuardDataplane :: "string \<Rightarrow> int \<Rightarrow> WireGuardDataplane" where
  "NewWireGuardDataplane interfaceName listenPort =
     \<lparr> wd_interfaceName = interfaceName, wd_listenPort = listenPort, activePeers = Map.empty,
       wd_ipAllocator = NewIPAllocator ''10.8.0.0/24'', wd_device = [] \<rparr>"

text \<open>
  \<^verbatim>\<open>SetupRelayForClient\<close>, under the mutex of the dataplane. The result is \<open>None\<close> only
  when the address scan of the allocator does not return.
\<close>

definition SetupRelayForClient ::
  "(string \<Rightarrow> string + 32 word \<times> nat) \<Rightarrow> WireGuardDataplane \<Rightarrow> string list \<Rightarrow>
   string \<Rightarrow> string \<Rightarrow> string \<Rightarrow> wgctrl \<Rightarrow>
   ((string + PeerInfo) \<times> WireGuardDataplane) option"
where
  "SetupRelayForClient ParseCIDR wd order clientID clientPublicKey sessionID wg =
     (case find (\<lambda>peer. pi_ClientID peer = clientID) (rangeValues (activePeers wd) order) of
        Some peer \<Rightarrow> Some (Inr peer, wd)
      | None \<Rightarrow>
          (case AllocateIP ParseCIDR (wd_ipAllocator wd) of
             None \<Rightarrow> None
           | Some (Inl err, ia) \<Rightarrow>
               Some (Inl (''failed to allocate IP: '' @ err), wd\<lparr> wd_ipAllocator := ia \<rparr>)
           | Some (Inr allocatedIP, ia) \<Rightarrow>
               (let peerConfig = \<lparr> pc_PublicKey = clientPublicKey, pc_Endpoint = [],
                                   pc_AllowedIPs = [allocatedIP @ ''/32''] \<rparr> in
                case AddPeer ParseCIDR wg (wd_device wd) (wd_interfaceName wd) peerConfig of
                  (Some err, dev) \<Rightarrow>
                    Some (Inl (''failed to add peer to WireGuard: '' @ err),
                          wd\<lparr> wd_ipAllocator := ReleaseIP ia allocatedIP, wd_device := dev \<rparr>)
                | (None, dev) \<Rightarrow>
                    (let peerInfo = \<lparr> pi_PeerID = ''relay-'' @ clientID,
                                       pi_PublicKey = clientPublicKey,
                                       pi_ClientID = clientID,
                                       pi_AllocatedIP = allocatedIP,
                                       pi_AllowedIPs = [allocatedIP @ ''/32''],
                                       pi_SessionID = sessionID \<rparr> in
                     Some (Inr peerInfo,
                           wd\<lparr> activePeers := (activePeers wd)(pi_PeerID peerInfo \<mapsto> peerInfo),
                               wd_ipAllocator := ia, wd_device := dev \<rparr>)))))"








section \<open>Unified peer: \<^verbatim>\<open>clientPeer/client/unified_peer.go\<close>\<close>

text \<open>
  \<^verbatim>\<open>PeerMode\<close> is a string type with three named values. \<^verbatim>\<open>Command\<close> and
  \<^verbatim>\<open>CommandResponse\<close> are the messages of \<^verbatim>\<open>clientPeer/proto\<close>; a key that a payload
  map does not hold reads as the empty string.
\<close>

definition ModeClient :: string where "ModeClient = ''client''"
definition ModeExit :: string where "ModeExit = ''exit''"
definition ModeHybrid :: string where "ModeHybrid = ''hybrid''"

datatype CommandType = SETUP_EXIT | ROTATE_PEER | RELAY_SETUP | DISCONNECT

record Command =
  CommandId :: string
  cmd_Type :: CommandType
  Payload :: "string \<rightharpoonup> string"

record CommandResponse =
  resp_CommandId :: string
  resp_Success :: bool
  resp_Message :: string
  resp_Result :: "string \<rightharpoonup> string"

definition payload :: "(string \<rightharpoonup> string) \<Rightarrow> string \<Rightarrow> string" where
  "payload m k = (case m k of Some v \<Rightarrow> v | None \<Rightarrow> [])"

record ClientInfo =
  ci_ClientID :: string
  ci_PublicKey :: string
  ci_AllocatedIP :: string
  ci_AllowedIPs :: "string list"
  ci_SessionID :: string
  ci_ConnectedAt :: time

text \<open>
  The exit-mode state of \<^verbatim>\<open>UnifiedPeer\<close>. \<open>up_device\<close> is what the peer has configured on
  its WireGuard devices; \<open>onExitClientAdded\<close> tells whether the UI callback is installed
  and \<open>exitClientAdded\<close> lists the calls made to it.
\<close>

record UnifiedPeer =
  up_id :: string
  up_region :: string
  currentMode :: string
  exitInterface :: string
  exitListenPort :: int
  activeClients :: "string \<rightharpoonup> ClientInfo"
  up_ipAllocator :: IPAllocator
  up_device :: device
  onExitClientAdded :: bool
  exitClientAdded :: "ClientInfo list"

text \<open>
  \<^verbatim>\<open>addClient\<close> returns \<open>Some e\<close> for the error \<open>e\<close> and \<open>None\<close> for \<^verbatim>\<open>nil\<close>; \<open>now\<close> is the
  clock and \<open>wg\<close> what the WireGuard libraries and the device answer.
\<close>

definition addClient ::
  "(string \<Rightarrow> string + 32 word \<times> nat) \<Rightarrow> UnifiedPeer \<Rightarrow> string \<Rightarrow> string \<Rightarrow> string \<Rightarrow>
   time \<Rightarrow> wgctrl \<Rightarrow> (string option \<times> UnifiedPeer) option"
where
  "addClient ParseCIDR up clientID clientPubKey sessionID now wg =
     (if activeClients up clientID \<noteq> None
      then Some (Some (''client '' @ clientID @ '' already exists''), up)
      else
        (case AllocateIP ParseCIDR (up_ipAllocator up) of
           None \<Rightarrow> None
         | Some (Inl err, ia) \<Rightarrow>
             Some (Some (''failed to allocate IP: '' @ err), up\<lparr> up_ipAllocator := ia \<rparr>)
         | Some (Inr allocatedIP, ia) \<Rightarrow>
             (let peerConfig = \<lparr> pc_PublicKey = clientPubKey, pc_Endpoint = [],
                                 pc_AllowedIPs = [allocatedIP @ ''/32''] \<rparr> in
              case AddPeer ParseCIDR wg (up_device up) (exitInterface up) peerConfig of
                (Some err, dev) \<Rightarrow>
                  Some (Some (''failed to add peer to WireGuard: '' @ err),
                        up\<lparr> up_ipAllocator := ReleaseIP ia allocatedIP, up_device := dev \<rparr>)
              | (None, dev) \<Rightarrow>
                  (let clientInfo = \<lparr> ci_ClientID = clientID, ci_PublicKey = clientPubKey,
                                       ci_AllocatedIP = allocatedIP,
                                       ci_AllowedIPs = [''0.0.0.0/0''],
                                       ci_SessionID = sessionID, ci_ConnectedAt = now \<rparr> in
                   Some (None,
                         up\<lparr> activeClients := (activeClients up)(clientID \<mapsto> clientInfo),
                             up_ipAllocator := ia, up_device := dev,
                             exitClientAdded :=
                               (if onExitClientAdded up then exitClientAdded up @ [clientInfo]
                                else exitClientAdded up) \<rparr>)))))"

definition handleSetupExitCommand ::
  "(string \<Rightarrow> string + 32 word \<times> nat) \<Rightarrow> UnifiedPeer \<Rightarrow> Command \<Rightarrow> time \<Rightarrow> wgctrl \<Rightarrow>
   (CommandResponse \<times> UnifiedPeer) option"
where
  "handleSetupExitCommand ParseCIDR up cmd now wg =
     (if currentMode up \<noteq> ModeExit \<and> currentMode up \<noteq> ModeHybrid
      then Some (\<lparr> resp_CommandId = CommandId cmd, resp_Success = False,
                    resp_Message = ''Peer is not in exit mode'', resp_Result = Map.empty \<rparr>, up)
      else
        (let clientID = payload (Payload cmd) ''client_id'';
             clientPubKey = payload (Payload cmd) ''client_pubkey'';
             sessionID = payload (Payload cmd) ''session_id'' in
         if clientID = [] \<or> clientPubKey = [] \<or> sessionID = []
         then Some (\<lparr> resp_CommandId = CommandId cmd, resp_Success = False,
                       resp_Message = ''Missing required parameters'',
                       resp_Result = Map.empty \<rparr>, up)
         else
           (case addClient ParseCIDR up clientID clientPubKey sessionID now wg of
              None \<Rightarrow> None
            | Some (Some err, up') \<Rightarrow>
                Some (\<lparr> resp_CommandId = CommandId cmd, resp_Success = False,
                         resp_Message = ''Failed to add client: '' @ err,
                         resp_Result = Map.empty \<rparr>, up')
            | Some (None, up') \<Rightarrow>
                Some (\<lparr> resp_CommandId = CommandId cmd, resp_Success = True,
                         resp_Message = ''Client added successfully'',
                         resp_Result = Map.empty \<rparr>, up'))))"

subsection \<open>The other command handlers\<close>

text \<open>
  The unified peer registers a handler for each of the four command types. Those for
  ROTATE\_PEER and RELAY\_SETUP only build a reply. The one for DISCONNECT also starts a
  goroutine that sleeps a second and stops the peer; what a handler starts is the second
  component of its result. The stream client (\<^verbatim>\<open>persistent_stream.go\<close>) has four default
  handlers of its own, which a peer that registers none is left with (\<open>psm_\<close> below); they
  build a reply too, and the one for DISCONNECT starts the same goroutine for the stream.
\<close>

datatype goroutine = StopAfter duration

definition handleRotatePeerCommand :: "Command \<Rightarrow> CommandResponse" where
  "handleRotatePeerCommand cmd =
     \<lparr> resp_CommandId = CommandId cmd, resp_Success = True,
       resp_Message = ''Rotate peer command handled'', resp_Result = Map.empty \<rparr>"

definition handleRelaySetupCommand :: "Command \<Rightarrow> CommandResponse" where
  "handleRelaySetupCommand cmd =
     \<lparr> resp_CommandId = CommandId cmd, resp_Success = True,
       resp_Message = ''Relay setup command handled'', resp_Result = Map.empty \<rparr>"

definition handleDisconnectCommand :: "Command \<Rightarrow> CommandResponse \<times> goroutine list" where
  "handleDisconnectCommand cmd =
     (\<lparr> resp_CommandId = CommandId cmd, resp_Success = True,
        resp_Message = ''Disconnect command handled'', resp_Result = Map.empty \<rparr>,
      [StopAfter (1 * Second)])"

definition psm_handleSetupExitCommand :: "Command \<Rightarrow> CommandResponse" where
  "psm_handleSetupExitCommand cmd =
     \<lparr> resp_CommandId = CommandId cmd, resp_Success = True,
       resp_Message = ''Setup exit command received'', resp_Result = Map.empty \<rparr>"

definition psm_handleRotatePeerCommand :: "Command \<Rightarrow> CommandResponse" where
  "psm_handleRotatePeerCommand cmd =
     \<lparr> resp_CommandId = CommandId cmd, resp_Success = True,
       resp_Message = ''Rotate peer command received'', resp_Result = Map.empty \<rparr>"

definition psm_handleRelaySetupCommand :: "Command \<Rightarrow> CommandResponse" where
  "psm_handleRelaySetupCommand cmd =
     \<lparr> resp_CommandId = CommandId cmd, resp_Success = True,
       resp_Message = ''Relay setup command received'', resp_Result = Map.empty \<rparr>"

definition psm_handleDisconnectCommand :: "Command \<Rightarrow> CommandResponse \<times> goroutine list" where
  "psm_handleDisconnectCommand cmd =
     (\<lparr> resp_CommandId = CommandId cmd, resp_Success = True,
        resp_Message = ''Disconnect command received'', resp_Result = Map.empty \<rparr>,
      [StopAfter (1 * Second)])"

lemma lookup_release:
  "\<not> lookup m ip \<Longrightarrow> lookup (m(ip := None)) = lookup m"
  by (auto simp: lookup_def fun_eq_iff split: option.splits)

lemma AllocateIP_Inr:
  "AllocateIP P ia = Some (Inr ip, ia') \<Longrightarrow>
   \<not> lookup (usedIPs ia) ip \<and> ia' = ia\<lparr> usedIPs := (usedIPs ia)(ip \<mapsto> True) \<rparr>"
  by (auto simp: AllocateIP_def split: option.splits sum.splits dest!: AllocateClientIP_sound)

lemma addClient_rollback:
  assumes "activeClients up clientID = None"
    and "AllocateIP P (up_ipAllocator up) = Some (Inr ip, ia)"
    and "fst (AddPeer P wg (up_device up) (exitInterface up)
           \<lparr> pc_PublicKey = pk, pc_Endpoint = [], pc_AllowedIPs = [ip @ ''/32''] \<rparr>) = Some e"
  shows "\<exists>up'. addClient P up clientID pk sid now wg
                 = Some (Some (''failed to add peer to WireGuard: '' @ e), up')
           \<and> activeClients up' = activeClients up
           \<and> lookup (usedIPs (up_ipAllocator up')) = lookup (usedIPs (up_ipAllocator up))
           \<and> \<not> lookup (usedIPs (up_ipAllocator up')) ip
           \<and> up_device up' = up_device up"
proof -
  from AllocateIP_Inr[OF assms(2)] have n: "\<not> lookup (usedIPs (up_ipAllocator up)) ip"
    and ia: "ia = (up_ipAllocator up)\<lparr> usedIPs := (usedIPs (up_ipAllocator up))(ip \<mapsto> True) \<rparr>"
    by simp_all
  have r: "lookup (usedIPs (ReleaseIP ia ip)) = lookup (usedIPs (up_ipAllocator up))"
    using n by (simp add: ia ReleaseIP_def lookup_release)
  from assms(3) AddPeer_cases[of P wg "up_device up" "exitInterface up"
      "\<lparr> pc_PublicKey = pk, pc_Endpoint = [], pc_AllowedIPs = [ip @ ''/32''] \<rparr>"]
  have "AddPeer P wg (up_device up) (exitInterface up)
           \<lparr> pc_PublicKey = pk, pc_Endpoint = [], pc_AllowedIPs = [ip @ ''/32''] \<rparr>
        = (Some e, up_device up)"
    by auto
  then show ?thesis using assms(1,2) n r
    by (simp add: addClient_def Let_def)
qed

lemma SetupRelayForClient_rollback:
  assumes "find (\<lambda>peer. pi_ClientID peer = clientID) (rangeValues (activePeers wd) order) = None"
    and "AllocateIP P (wd_ipAllocator wd) = Some (Inr ip, ia)"
    and "fst (AddPeer P wg (wd_device wd) (wd_interfaceName wd)
           \<lparr> pc_PublicKey = pk, pc_Endpoint = [], pc_AllowedIPs = [ip @ ''/32''] \<rparr>) = Some e"
  shows "\<exists>wd'. SetupRelayForClient P wd order clientID pk sid wg
                 = Some (Inl (''failed to add peer to WireGuard: '' @ e), wd')
           \<and> activePeers wd' = activePeers wd
           \<and> lookup (usedIPs (wd_ipAllocator wd')) = lookup (usedIPs (wd_ipAllocator wd))
           \<and> \<not> lookup (usedIPs (wd_ipAllocator wd')) ip
           \<and> wd_device wd' = wd_device wd"
proof -
  from AllocateIP_Inr[OF assms(2)] have n: "\<not> lookup (usedIPs (wd_ipAllocator wd)) ip"
    and ia: "ia = (wd_ipAllocator wd)\<lparr> usedIPs := (usedIPs (wd_ipAllocator wd))(ip \<mapsto> True) \<rparr>"
    by simp_all
  have r: "lookup (usedIPs (ReleaseIP ia ip)) = lookup (usedIPs (wd_ipAllocator wd))"
    using n by (simp add: ia ReleaseIP_def lookup_release)
  from assms(3) AddPeer_cases[of P wg "wd_device wd" "wd_interfaceName wd"
      "\<lparr> pc_PublicKey = pk, pc_Endpoint = [], pc_AllowedIPs = [ip @ ''/32''] \<rparr>"]
  have "AddPeer P wg (wd_device wd) (wd_interfaceName wd)
           \<lparr> pc_PublicKey = pk, pc_Endpoint = [], pc_AllowedIPs = [ip @ ''/32''] \<rparr>
        = (Some e, wd_device wd)"
    by auto
  then show ?thesis using assms(1,2) n r
    by (simp add: SetupRelayForClient_def Let_def)
qed

lemma handleSetupExitCommand_rollback:
  assumes "currentMode up = ModeExit \<or> currentMode up = ModeHybrid"
    and "payload (Payload cmd) ''client_id'' \<noteq> []"
    and "payload (Payload cmd) ''client_pubkey'' \<noteq> []"
    and "payload (Payload cmd) ''session_id'' \<noteq> []"
    and "activeClients up (payload (Payload cmd) ''client_id'') = None"
    and "AllocateIP P (up_ipAllocator up) = Some (Inr ip, ia)"
    and "fst (AddPeer P wg (up_device up) (exitInterface up)
           \<lparr> pc_PublicKey = payload (Payload cmd) ''client_pubkey'', pc_Endpoint = [],
             pc_AllowedIPs = [ip @ ''/32''] \<rparr>) = Some e"
  shows "\<exists>up'. handleSetupExitCommand P up cmd now wg
                 = Some (\<lparr> resp_CommandId = CommandId cmd, resp_Success = False,
                           resp_Message = ''Failed to add client: failed to add peer to WireGuard: '' @ e,
                           resp_Result = Map.empty \<rparr>, up')
           \<and> activeClients up' = activeClients up
           \<and> lookup (usedIPs (up_ipAllocator up')) = lookup (usedIPs (up_ipAllocator up))
           \<and> \<not> lookup (usedIPs (up_ipAllocator up')) ip
           \<and> up_device up' = up_device up"
proof -
  from addClient_rollback[OF assms(5,6,7)] obtain up' where
    a: "addClient P up (payload (Payload cmd) ''client_id'') (payload (Payload cmd) ''client_pubkey'')
          (payload (Payload cmd) ''session_id'') now wg
        = Some (Some (''failed to add peer to WireGuard: '' @ e), up')"
    and r: "activeClients up' = activeClients up"
       "lookup (usedIPs (up_ipAllocator up')) = lookup (usedIPs (up_ipAllocator up))"
       "\<not> lookup (usedIPs (up_ipAllocator up')) ip" "up_device up' = up_device up"
    by blast
  have "handleSetupExitCommand P up cmd now wg
        = Some (\<lparr> resp_CommandId = CommandId cmd, resp_Success = False,
                  resp_Message = ''Failed to add client: failed to add peer to WireGuard: '' @ e,
                  resp_Result = Map.empty \<rparr>, up')"
    using assms(1-4) a by (auto simp: handleSetupExitCommand_def Let_def)
  with r show ?thesis by blast
qed

lemma handleSetupExitCommand_not_exit:
  "currentMode up \<noteq> ModeExit \<Longrightarrow> currentMode up \<noteq> ModeHybrid \<Longrightarrow>
   handleSetupExitCommand P up cmd now wg
   = Some (\<lparr> resp_CommandId = CommandId cmd, resp_Success = False,
             resp_Message = ''Peer is not in exit mode'', resp_Result = Map.empty \<rparr>, up)"
  by (simp add: handleSetupExitCommand_def)

lemma handleSetupExitCommand_missing:
  "currentMode up = ModeExit \<or> currentMode up = ModeHybrid \<Longrightarrow>
   payload (Payload cmd) ''client_id'' = [] \<or> payload (Payload cmd) ''client_pubkey'' = []
     \<or> payload (Payload cmd) ''session_id'' = [] \<Longrightarrow>
   handleSetupExitCommand P up cmd now wg
   = Some (\<lparr> resp_CommandId = CommandId cmd, resp_Success = False,
             resp_Message = ''Missing required parameters'', resp_Result = Map.empty \<rparr>, up)"
  by (auto simp add: handleSetupExitCommand_def Let_def)

lemma handleSetupExitCommand_add:
  "currentMode up = ModeExit \<or> currentMode up = ModeHybrid \<Longrightarrow>
   payload (Payload cmd) ''client_id'' \<noteq> [] \<Longrightarrow> payload (Payload cmd) ''client_pubkey'' \<noteq> [] \<Longrightarrow>
   payload (Payload cmd) ''session_id'' \<noteq> [] \<Longrightarrow>
   handleSetupExitCommand P up cmd now wg
   = (case addClient P up (payload (Payload cmd) ''client_id'') (payload (Payload cmd) ''client_pubkey'')
            (payload (Payload cmd) ''session_id'') now wg of
        None \<Rightarrow> None
      | Some (Some err, up') \<Rightarrow>
          Some (\<lparr> resp_CommandId = CommandId cmd, resp_Success = False,
                   resp_Message = ''Failed to add client: '' @ err, resp_Result = Map.empty \<rparr>, up')
      | Some (None, up') \<Rightarrow>
          Some (\<lparr> resp_CommandId = CommandId cmd, resp_Success = True,
                   resp_Message = ''Client added successfully'', resp_Result = Map.empty \<rparr>, up'))"
  by (auto simp add: handleSetupExitCommand_def Let_def)

lemma addClient_exists:
  "activeClients up clientID \<noteq> None \<Longrightarrow>
   addClient P up clientID pk sid now wg = Some (Some (''client '' @ clientID @ '' already exists''), up)"
  by (simp add: addClient_def)

lemma addClient_success:
  assumes "addClient P up clientID pk sid now wg = Some (None, up')"
  shows "activeClients up' clientID \<noteq> None \<and> currentMode up' = currentMode up"
proof (cases "activeClients up clientID")
  case (Some c)
  with assms show ?thesis by (simp add: addClient_def)
next
  case None
  show ?thesis
  proof (cases "AllocateIP P (up_ipAllocator up)")
    case N: None
    with None assms show ?thesis by (simp add: addClient_def)
  next
    case S: (Some a)
    obtain r ia where a: "a = (r, ia)" by (cases a)
    show ?thesis
    proof (cases r)
      case (Inl err)
      with None S a assms show ?thesis by (simp add: addClient_def)
    next
      case (Inr ip)
      let ?pc = "\<lparr> pc_PublicKey = pk, pc_Endpoint = [], pc_AllowedIPs = [ip @ ''/32''] \<rparr>"
      from AddPeer_cases[of P wg "up_device up" "exitInterface up" ?pc]
      show ?thesis
      proof
        assume "\<exists>e. AddPeer P wg (up_device up) (exitInterface up) ?pc = (Some e, up_device up)"
        with None S a Inr assms show ?thesis
          by (auto simp add: addClient_def Let_def)
      next
        assume "AddPeer P wg (up_device up) (exitInterface up) ?pc
                = (None, up_device up @ [(exitInterface up, ?pc)])"
        with None S a Inr assms show ?thesis
          by (auto simp add: addClient_def Let_def)
      qed
    qed
  qed
qed

lemma handleSetupExitCommand_success:
  assumes "handleSetupExitCommand P up cmd now wg = Some (r, up')" "resp_Success r"
  shows "(currentMode up = ModeExit \<or> currentMode up = ModeHybrid)
       \<and> payload (Payload cmd) ''client_id'' \<noteq> []
       \<and> payload (Payload cmd) ''client_pubkey'' \<noteq> []
       \<and> payload (Payload cmd) ''session_id'' \<noteq> []
       \<and> addClient P up (payload (Payload cmd) ''client_id'') (payload (Payload cmd) ''client_pubkey'')
            (payload (Payload cmd) ''session_id'') now wg = Some (None, up')"
proof -
  have m: "currentMode up = ModeExit \<or> currentMode up = ModeHybrid"
  proof (rule ccontr)
    assume "\<not> ?thesis"
    then have "currentMode up \<noteq> ModeExit" "currentMode up \<noteq> ModeHybrid" by simp_all
    from handleSetupExitCommand_not_exit[OF this, of P cmd now wg] assms show False by auto
  qed
  have p: "\<not> (payload (Payload cmd) ''client_id'' = [] \<or> payload (Payload cmd) ''client_pubkey'' = []
     \<or> payload (Payload cmd) ''session_id'' = [])"
  proof
    assume "payload (Payload cmd) ''client_id'' = [] \<or> payload (Payload cmd) ''client_pubkey'' = []
     \<or> payload (Payload cmd) ''session_id'' = []"
    from handleSetupExitCommand_missing[OF m this, of P now wg] assms show False by auto
  qed
  then have p': "payload (Payload cmd) ''client_id'' \<noteq> []" "payload (Payload cmd) ''client_pubkey'' \<noteq> []"
    "payload (Payload cmd) ''session_id'' \<noteq> []" by simp_all
  from handleSetupExitCommand_add[OF m p', of P now wg] assms
  have "addClient P up (payload (Payload cmd) ''client_id'') (payload (Payload cmd) ''client_pubkey'')
            (payload (Payload cmd) ''session_id'') now wg = Some (None, up')"
    by (auto split: option.splits prod.splits)
  with m p' show ?thesis by simp
qed

text \<open>
  C3, amended. No receiver keeps a record of the commands it has handled. For SETUP\_EXIT
  the unified peer checks whether the client is already active. So: (1) when SETUP\_EXIT
  was answered with \<^verbatim>\<open>success=true\<close>, handling the same command again, at any time and
  whatever the libraries and the device would answer, leaves the peer exactly as it is
  (no second address, no second WireGuard peer, no second callback) and is answered with
  the same command identifier, \<^verbatim>\<open>success=false\<close> and "client ... already exists";
  (2) when the peer is not in exit or hybrid mode, or a required parameter is missing, or
  the client is already active, the command changes nothing, is answered
  \<^verbatim>\<open>success=false\<close>, and a replay is answered identically; (3) the handlers of the other
  command types at the unified peer, and all four default handlers of the stream client,
  answer \<^verbatim>\<open>success=true\<close> with a reply that depends on the command identifier alone, so a
  replay is answered identically; those for DISCONNECT start, at every handling, one
  goroutine that stops the receiver a second later.
\<close>

theorem replayed_SETUP_EXIT_rejected_without_effect:
  "(handleSetupExitCommand P up cmd now wg = Some (r, up') \<and> resp_Success r \<longrightarrow>
      handleSetupExitCommand P up' cmd now' wg'
      = Some (\<lparr> resp_CommandId = CommandId cmd, resp_Success = False,
                resp_Message = ''Failed to add client: client '' @ payload (Payload cmd) ''client_id''
                                 @ '' already exists'',
                resp_Result = Map.empty \<rparr>, up'))
   \<and> ((currentMode up \<noteq> ModeExit \<and> currentMode up \<noteq> ModeHybrid)
        \<or> payload (Payload cmd) ''client_id'' = [] \<or> payload (Payload cmd) ''client_pubkey'' = []
        \<or> payload (Payload cmd) ''session_id'' = []
        \<or> activeClients up (payload (Payload cmd) ''client_id'') \<noteq> None \<longrightarrow>
      handleSetupExitCommand P up cmd now' wg' = handleSetupExitCommand P up cmd now wg
      \<and> (\<exists>r. handleSetupExitCommand P up cmd now wg = Some (r, up) \<and> \<not> resp_Success r))
   \<and> (CommandId cmd' = CommandId cmd \<longrightarrow>
        handleRotatePeerCommand cmd' = handleRotatePeerCommand cmd
        \<and> handleRelaySetupCommand cmd' = handleRelaySetupCommand cmd
        \<and> handleDisconnectCommand cmd' = handleDisconnectCommand cmd
        \<and> psm_handleSetupExitCommand cmd' = psm_handleSetupExitCommand cmd
        \<and> psm_handleRotatePeerCommand cmd' = psm_handleRotatePeerCommand cmd
        \<and> psm_handleRelaySetupCommand cmd' = psm_handleRelaySetupCommand cmd
        \<and> psm_handleDisconnectCommand cmd' = psm_handleDisconnectCommand cmd)
   \<and> resp_Success (handleRotatePeerCommand cmd) \<and> resp_Success (handleRelaySetupCommand cmd)
   \<and> resp_Success (fst (handleDisconnectCommand cmd))
   \<and> snd (handleDisconnectCommand cmd) = [StopAfter (1 * Second)]
   \<and> resp_Success (psm_handleSetupExitCommand cmd) \<and> resp_Success (psm_handleRotatePeerCommand cmd)
   \<and> resp_Success (psm_handleRelaySetupCommand cmd)
   \<and> resp_Success (fst (psm_handleDisconnectCommand cmd))
   \<and> snd (psm_handleDisconnectCommand cmd) = [StopAfter (1 * Second)]"
proof -
  have one: "handleSetupExitCommand P up' cmd now' wg'
      = Some (\<lparr> resp_CommandId = CommandId cmd, resp_Success = False,
                resp_Message = ''Failed to add client: client '' @ payload (Payload cmd) ''client_id''
                                 @ '' already exists'',
                resp_Result = Map.empty \<rparr>, up')"
    if a: "handleSetupExitCommand P up cmd now wg = Some (r, up') \<and> resp_Success r"
  proof -
    from handleSetupExitCommand_success[of P up cmd now wg r up'] a
    have m: "currentMode up = ModeExit \<or> currentMode up = ModeHybrid"
      and p: "payload (Payload cmd) ''client_id'' \<noteq> []" "payload (Payload cmd) ''client_pubkey'' \<noteq> []"
         "payload (Payload cmd) ''session_id'' \<noteq> []"
      and ac: "addClient P up (payload (Payload cmd) ''client_id'') (payload (Payload cmd) ''client_pubkey'')
              (payload (Payload cmd) ''session_id'') now wg = Some (None, up')"
      by simp_all
    from addClient_success[of P up _ _ _ now wg up'] ac
    have e: "activeClients up' (payload (Payload cmd) ''client_id'') \<noteq> None"
      and m': "currentMode up' = currentMode up"
      by simp_all
    from m m' have m2: "currentMode up' = ModeExit \<or> currentMode up' = ModeHybrid" by simp
    show ?thesis
      by (simp add: handleSetupExitCommand_add[OF m2 p] addClient_exists[OF e])
  qed
  have two: "handleSetupExitCommand P up cmd now' wg' = handleSetupExitCommand P up cmd now wg
      \<and> (\<exists>r. handleSetupExitCommand P up cmd now wg = Some (r, up) \<and> \<not> resp_Success r)"
    if a: "(currentMode up \<noteq> ModeExit \<and> currentMode up \<noteq> ModeHybrid)
        \<or> payload (Payload cmd) ''client_id'' = [] \<or> payload (Payload cmd) ''client_pubkey'' = []
        \<or> payload (Payload cmd) ''session_id'' = []
        \<or> activeClients up (payload (Payload cmd) ''client_id'') \<noteq> None"
  proof (cases "currentMode up = ModeExit \<or> currentMode up = ModeHybrid")
    case False
    then show ?thesis by (simp add: handleSetupExitCommand_not_exit)
  next
    case m: True
    show ?thesis
    proof (cases "payload (Payload cmd) ''client_id'' = [] \<or> payload (Payload cmd) ''client_pubkey'' = []
        \<or> payload (Payload cmd) ''session_id'' = []")
      case True
      then show ?thesis by (simp add: handleSetupExitCommand_missing[OF m])
    next
      case False
      then have p: "payload (Payload cmd) ''client_id'' \<noteq> []" "payload (Payload cmd) ''client_pubkey'' \<noteq> []"
        "payload (Payload cmd) ''session_id'' \<noteq> []" by simp_all
      from a m False have e: "activeClients up (payload (Payload cmd) ''client_id'') \<noteq> None" by blast
      show ?thesis
        by (simp add: handleSetupExitCommand_add[OF m p] addClient_exists[OF e])
    qed
  qed
  have three: "handleRotatePeerCommand cmd' = handleRotatePeerCommand cmd
        \<and> handleRelaySetupCommand cmd' = handleRelaySetupCommand cmd
        \<and> handleDisconnectCommand cmd' = handleDisconnectCommand cmd
        \<and> psm_handleSetupExitCommand cmd' = psm_handleSetupExitCommand cmd
        \<and> psm_handleRotatePeerCommand cmd' = psm_handleRotatePeerCommand cmd
        \<and> psm_handleRelaySetupCommand cmd' = psm_handleRelaySetupCommand cmd
        \<and> psm_handleDisconnectCommand cmd' = psm_handleDisconnectCommand cmd"
    if "CommandId cmd' = CommandId cmd"
    using that
    by (simp add: handleRotatePeerCommand_def handleRelaySetupCommand_def
        handleDisconnectCommand_def psm_handleSetupExitCommand_def psm_handleRotatePeerCommand_def
        psm_handleRelaySetupCommand_def psm_handleDisconnectCommand_def)
  have four: "resp_Success (handleRotatePeerCommand cmd) \<and> resp_Success (handleRelaySetupCommand cmd)
   \<and> resp_Success (fst (handleDisconnectCommand cmd))
   \<and> snd (handleDisconnectCommand cmd) = [StopAfter (1 * Second)]
   \<and> resp_Success (psm_handleSetupExitCommand cmd) \<and> resp_Success (psm_handleRotatePeerCommand cmd)
   \<and> resp_Success (psm_handleRelaySetupCommand cmd)
   \<and> resp_Success (fst (psm_handleDisconnectCommand cmd))
   \<and> snd (psm_handleDisconnectCommand cmd) = [StopAfter (1 * Second)]"
    by (simp add: handleRotatePeerCommand_def handleRelaySetupCommand_def
        handleDisconnectCommand_def psm_handleSetupExitCommand_def psm_handleRotatePeerCommand_def
        psm_handleRelaySetupCommand_def psm_handleDisconnectCommand_def)
  from one two three four show ?thesis by blast
qed

text \<open>
  What the libraries answer for the texts used below. The first key is the base64 text
  of 32 bytes, a well-formed WireGuard key; the second is the base64 text of the 10 bytes
  \<^verbatim>\<open>client-key\<close>, which \<^verbatim>\<open>wgtypes.ParseKey\<close> refuses for its size. No endpoint is resolved
  below. \<open>wg_up\<close> is a device that accepts the peer, \<open>wg_down\<close> one that is gone.
\<close>

definition ParseKey0 :: "string \<Rightarrow> string option" where
  "ParseKey0 s = (if s = ''/ZaM0KJ8hco2L4RD2PLsKvwY7H+JvTJ8JTcnehxJ1U8='' then None
                  else if s = ''Y2xpZW50LWtleQ=='' then Some ''wgtypes: incorrect key size: 10''
                  else Some ''wgtypes: failed to parse base64-encoded key'')"

definition ResolveUDPAddr0 :: "string \<Rightarrow> string option" where
  "ResolveUDPAddr0 s = (if s = ''203.0.113.7:51820'' then None
                        else Some (''address '' @ s @ '': missing port in address''))"

definition wg_up :: wgctrl where
  "wg_up = \<lparr> ParseKey = ParseKey0, ResolveUDPAddr = ResolveUDPAddr0, ConfigureDevice = None \<rparr>"

definition wg_down :: wgctrl where
  "wg_down = \<lparr> ParseKey = ParseKey0, ResolveUDPAddr = ResolveUDPAddr0,
               ConfigureDevice = Some ''file does not exist'' \<rparr>"

definition t0 :: time where
  "t0 = 1700000000 * Second"

definition exit_peer0 :: UnifiedPeer where
  "exit_peer0 = \<lparr> up_id = ''peer-us'', up_region = ''us'', currentMode = ModeExit,
     exitInterface = ''wg-exit-peer-us'', exitListenPort = 51820, activeClients = Map.empty,
     up_ipAllocator = NewIPAllocator ''10.9.0.0/24'', up_device = [],
     onExitClientAdded = True, exitClientAdded = [] \<rparr>"

definition setup_cmd :: Command where
  "setup_cmd = \<lparr> CommandId = ''setup-exit-1'', cmd_Type = SETUP_EXIT,
     Payload = [''client_id'' \<mapsto> ''c1'', ''client_pubkey'' \<mapsto> ''/ZaM0KJ8hco2L4RD2PLsKvwY7H+JvTJ8JTcnehxJ1U8='',
                ''session_id'' \<mapsto> ''c1-peer-us-1700000000'', ''allowed_ips'' \<mapsto> ''0.0.0.0/0''] \<rparr>"

definition client_c1 :: ClientInfo where
  "client_c1 = \<lparr> ci_ClientID = ''c1'', ci_PublicKey = ''/ZaM0KJ8hco2L4RD2PLsKvwY7H+JvTJ8JTcnehxJ1U8='',
     ci_AllocatedIP = ''10.9.0.1'', ci_AllowedIPs = [''0.0.0.0/0''],
     ci_SessionID = ''c1-peer-us-1700000000'', ci_ConnectedAt = t0 \<rparr>"

definition exit_peer1 :: UnifiedPeer where
  "exit_peer1 = exit_peer0\<lparr> activeClients := [''c1'' \<mapsto> client_c1],
     up_ipAllocator := \<lparr> ia_cidr = ''10.9.0.0/24'', usedIPs = [''10.9.0.1'' \<mapsto> True] \<rparr>,
     up_device := [(''wg-exit-peer-us'', \<lparr> pc_PublicKey = ''/ZaM0KJ8hco2L4RD2PLsKvwY7H+JvTJ8JTcnehxJ1U8='', pc_Endpoint = [],
                      pc_AllowedIPs = [''10.9.0.1/32''] \<rparr>)],
     exitClientAdded := [client_c1] \<rparr>"

lemma alloc_exit_peer0:
  "AllocateIP ParseCIDR0 (up_ipAllocator exit_peer0)
   = Some (Inr ''10.9.0.1'', \<lparr> ia_cidr = ''10.9.0.0/24'', usedIPs = [''10.9.0.1'' \<mapsto> True] \<rparr>)"
  by (simp add: exit_peer0_def NewIPAllocator_def ip_eval)

lemmas up_eval = handleSetupExitCommand_def addClient_def AddPeer_def payload_def
  ModeExit_def ModeHybrid_def ModeClient_def Let_def wg_up_def wg_down_def ParseKey0_def
  ParseCIDR0_def

lemma first_setup:
  "handleSetupExitCommand ParseCIDR0 exit_peer0 setup_cmd t0 wg_up
   = Some (\<lparr> resp_CommandId = ''setup-exit-1'', resp_Success = True,
             resp_Message = ''Client added successfully'', resp_Result = Map.empty \<rparr>, exit_peer1)"
  using alloc_exit_peer0
  by (simp add: up_eval exit_peer0_def exit_peer1_def setup_cmd_def client_c1_def)

lemma replay_setup:
  "handleSetupExitCommand ParseCIDR0 exit_peer1 setup_cmd t0 wg_up
   = Some (\<lparr> resp_CommandId = ''setup-exit-1'', resp_Success = False,
             resp_Message = ''Failed to add client: client c1 already exists'',
             resp_Result = Map.empty \<rparr>, exit_peer1)"
  by (simp add: up_eval exit_peer0_def exit_peer1_def setup_cmd_def)

text \<open>
  C3, as stated, fails. A peer in exit mode with no client handles a SETUP\_EXIT command
  that carries a well-formed key; the device accepts the peer and the peer answers
  \<^verbatim>\<open>success=true\<close>. Handling the same command again, it answers \<^verbatim>\<open>success=false\<close>,
  "client c1 already exists". The two responses differ.
\<close>

theorem replayed_SETUP_EXIT_differs:
  "handleSetupExitCommand ParseCIDR0 exit_peer0 setup_cmd t0 wg_up
   = Some (\<lparr> resp_CommandId = ''setup-exit-1'', resp_Success = True,
             resp_Message = ''Client added successfully'', resp_Result = Map.empty \<rparr>, exit_peer1)
   \<and> handleSetupExitCommand ParseCIDR0 exit_peer1 setup_cmd t0 wg_up
   = Some (\<lparr> resp_CommandId = ''setup-exit-1'', resp_Success = False,
             resp_Message = ''Failed to add client: client c1 already exists'',
             resp_Result = Map.empty \<rparr>, exit_peer1)
   \<and> handleSetupExitCommand ParseCIDR0 exit_peer1 setup_cmd t0 wg_up
       \<noteq> Some (\<lparr> resp_CommandId = ''setup-exit-1'', resp_Success = True,
             resp_Message = ''Client added successfully'', resp_Result = Map.empty \<rparr>, exit_peer1)"
  by (simp add: first_setup replay_setup)

definition ok_resp :: CommandResponse where
  "ok_resp = \<lparr> resp_CommandId = ''setup-exit-1'', resp_Success = True,
               resp_Message = ''Client added successfully'', resp_Result = Map.empty \<rparr>"

definition dup_resp :: CommandResponse where
  "dup_resp = \<lparr> resp_CommandId = ''setup-exit-1'', resp_Success = False,
                resp_Message = ''Failed to add client: client c1 already exists'',
                resp_Result = Map.empty \<rparr>"

theorem replayed_SETUP_EXIT_rejected_without_effect_witness:
  "handleSetupExitCommand ParseCIDR0 exit_peer0 setup_cmd t0 wg_up = Some (ok_resp, exit_peer1)
   \<and> resp_Success ok_resp
   \<and> handleSetupExitCommand ParseCIDR0 exit_peer1 setup_cmd (t0 + 5 * Second) wg_down
       = Some (dup_resp, exit_peer1)
   \<and> activeClients exit_peer1 (payload (Payload setup_cmd) ''client_id'') \<noteq> None
   \<and> handleSetupExitCommand ParseCIDR0 exit_peer1 setup_cmd (t0 + 5 * Second) wg_down
       = handleSetupExitCommand ParseCIDR0 exit_peer1 setup_cmd t0 wg_up"
proof -
  have f: "handleSetupExitCommand ParseCIDR0 exit_peer0 setup_cmd t0 wg_up = Some (ok_resp, exit_peer1)"
    by (simp add: first_setup ok_resp_def)
  have s: "resp_Success ok_resp" by (simp add: ok_resp_def)
  have c: "activeClients exit_peer1 (payload (Payload setup_cmd) ''client_id'') \<noteq> None"
    by (simp add: exit_peer1_def setup_cmd_def payload_def)
  note t = replayed_SETUP_EXIT_rejected_without_effect
    [of ParseCIDR0 exit_peer0 setup_cmd t0 wg_up ok_resp exit_peer1 "t0 + 5 * Second" wg_down
     setup_cmd]
  note t2 = replayed_SETUP_EXIT_rejected_without_effect
    [of ParseCIDR0 exit_peer1 setup_cmd t0 wg_up ok_resp exit_peer1 "t0 + 5 * Second" wg_down
     setup_cmd]
  from t f s have "handleSetupExitCommand ParseCIDR0 exit_peer1 setup_cmd (t0 + 5 * Second) wg_down
       = Some (dup_resp, exit_peer1)"
    by (simp add: dup_resp_def setup_cmd_def payload_def)
  moreover from t2 c have "handleSetupExitCommand ParseCIDR0 exit_peer1 setup_cmd (t0 + 5 * Second) wg_down
       = handleSetupExitCommand ParseCIDR0 exit_peer1 setup_cmd t0 wg_up"
    by blast
  ultimately show ?thesis using f s c by blast
qed

text \<open>
  C9. In exit or hybrid mode, for a SETUP\_EXIT command with its three parameters and a
  client that is not yet active: when the allocator has handed out the address \<open>ip\<close> and
  adding the WireGuard peer then fails with \<open>e\<close> (the key or the allowed address is
  refused, or the device call fails), the handler answers \<^verbatim>\<open>success=false\<close>, the
  active-clients map is the one before the call, the used-set of the allocator reads as
  before the call with \<open>ip\<close> free again, and nothing was added to the device.
  \<^verbatim>\<open>SetupRelayForClient\<close> of the relay dataplane does the same: the error,
  \<^verbatim>\<open>activePeers\<close> and the used-set as before, \<open>ip2\<close> free again.
\<close>

theorem peer_add_failure_rolls_back:
  "((currentMode up = ModeExit \<or> currentMode up = ModeHybrid)
     \<and> payload (Payload cmd) ''client_id'' \<noteq> []
     \<and> payload (Payload cmd) ''client_pubkey'' \<noteq> []
     \<and> payload (Payload cmd) ''session_id'' \<noteq> []
     \<and> activeClients up (payload (Payload cmd) ''client_id'') = None
     \<and> AllocateIP P (up_ipAllocator up) = Some (Inr ip, ia)
     \<and> fst (AddPeer P wg (up_device up) (exitInterface up)
              \<lparr> pc_PublicKey = payload (Payload cmd) ''client_pubkey'', pc_Endpoint = [],
                pc_AllowedIPs = [ip @ ''/32''] \<rparr>) = Some e \<longrightarrow>
     (\<exists>up'. handleSetupExitCommand P up cmd now wg
              = Some (\<lparr> resp_CommandId = CommandId cmd, resp_Success = False,
                        resp_Message = ''Failed to add client: failed to add peer to WireGuard: '' @ e,
                        resp_Result = Map.empty \<rparr>, up')
        \<and> activeClients up' = activeClients up
        \<and> lookup (usedIPs (up_ipAllocator up')) = lookup (usedIPs (up_ipAllocator up))
        \<and> \<not> lookup (usedIPs (up_ipAllocator up')) ip
        \<and> up_device up' = up_device up))
   \<and> (find (\<lambda>peer. pi_ClientID peer = clientID) (rangeValues (activePeers wd) order) = None
       \<and> AllocateIP P (wd_ipAllocator wd) = Some (Inr ip2, ia2)
       \<and> fst (AddPeer P wg2 (wd_device wd) (wd_interfaceName wd)
                \<lparr> pc_PublicKey = pk, pc_Endpoint = [], pc_AllowedIPs = [ip2 @ ''/32''] \<rparr>)
           = Some e2 \<longrightarrow>
       (\<exists>wd'. SetupRelayForClient P wd order clientID pk sid wg2
                = Some (Inl (''failed to add peer to WireGuard: '' @ e2), wd')
          \<and> activePeers wd' = activePeers wd
          \<and> lookup (usedIPs (wd_ipAllocator wd')) = lookup (usedIPs (wd_ipAllocator wd))
          \<and> \<not> lookup (usedIPs (wd_ipAllocator wd')) ip2
          \<and> wd_device wd' = wd_device wd))"
proof (rule conjI; rule impI)
  assume "(currentMode up = ModeExit \<or> currentMode up = ModeHybrid)
     \<and> payload (Payload cmd) ''client_id'' \<noteq> []
     \<and> payload (Payload cmd) ''client_pubkey'' \<noteq> []
     \<and> payload (Payload cmd) ''session_id'' \<noteq> []
     \<and> activeClients up (payload (Payload cmd) ''client_id'') = None
     \<and> AllocateIP P (up_ipAllocator up) = Some (Inr ip, ia)
     \<and> fst (AddPeer P wg (up_device up) (exitInterface up)
              \<lparr> pc_PublicKey = payload (Payload cmd) ''client_pubkey'', pc_Endpoint = [],
                pc_AllowedIPs = [ip @ ''/32''] \<rparr>) = Some e"
  then show "\<exists>up'. handleSetupExitCommand P up cmd now wg
              = Some (\<lparr> resp_CommandId = CommandId cmd, resp_Success = False,
                        resp_Message = ''Failed to add client: failed to add peer to WireGuard: '' @ e,
                        resp_Result = Map.empty \<rparr>, up')
        \<and> activeClients up' = activeClients up
        \<and> lookup (usedIPs (up_ipAllocator up')) = lookup (usedIPs (up_ipAllocator up))
        \<and> \<not> lookup (usedIPs (up_ipAllocator up')) ip
        \<and> up_device up' = up_device up"
    by (intro handleSetupExitCommand_rollback[of up cmd P ip ia wg e]) simp_all
next
  assume "find (\<lambda>peer. pi_ClientID peer = clientID) (rangeValues (activePeers wd) order) = None
       \<and> AllocateIP P (wd_ipAllocator wd) = Some (Inr ip2, ia2)
       \<and> fst (AddPeer P wg2 (wd_device wd) (wd_interfaceName wd)
                \<lparr> pc_PublicKey = pk, pc_Endpoint = [], pc_AllowedIPs = [ip2 @ ''/32''] \<rparr>)
           = Some e2"
  then show "\<exists>wd'. SetupRelayForClient P wd order clientID pk sid wg2
                = Some (Inl (''failed to add peer to WireGuard: '' @ e2), wd')
          \<and> activePeers wd' = activePeers wd
          \<and> lookup (usedIPs (wd_ipAllocator wd')) = lookup (usedIPs (wd_ipAllocator wd))
          \<and> \<not> lookup (usedIPs (wd_ipAllocator wd')) ip2
          \<and> wd_device wd' = wd_device wd"
    by (intro SetupRelayForClient_rollback[of clientID wd order P ip2 ia2 wg2 pk e2]) simp_all
qed

text \<open>
  A SETUP\_EXIT command whose key is the base64 text of 10 bytes, and a relay dataplane
  of a coordinator.
\<close>

definition bad_key_cmd :: Command where
  "bad_key_cmd = \<lparr> CommandId = ''setup-exit-2'', cmd_Type = SETUP_EXIT,
     Payload = [''client_id'' \<mapsto> ''c2'', ''client_pubkey'' \<mapsto> ''Y2xpZW50LWtleQ=='',
                ''session_id'' \<mapsto> ''c2-peer-us-1700000000'', ''allowed_ips'' \<mapsto> ''0.0.0.0/0''] \<rparr>"

definition relay0 :: WireGuardDataplane where
  "relay0 = NewWireGuardDataplane ''wg-relay-sn-us'' 51825"



lemma alloc_relay0:
  "AllocateIP ParseCIDR0 (wd_ipAllocator relay0)
   = Some (Inr ''10.8.0.1'', \<lparr> ia_cidr = ''10.8.0.0/24'', usedIPs = [''10.8.0.1'' \<mapsto> True] \<rparr>)"
  by (simp add: relay0_def NewWireGuardDataplane_def NewIPAllocator_def ip_eval)


lemma bad_key_refused:
  "fst (AddPeer ParseCIDR0 wg_up (up_device exit_peer0) (exitInterface exit_peer0)
          \<lparr> pc_PublicKey = payload (Payload bad_key_cmd) ''client_pubkey'', pc_Endpoint = [],
            pc_AllowedIPs = [''10.9.0.1'' @ ''/32''] \<rparr>)
   = Some ''invalid public key: wgtypes: incorrect key size: 10''"
  by (simp add: AddPeer_def wg_up_def ParseKey0_def bad_key_cmd_def payload_def)

lemma device_gone:
  "fst (AddPeer ParseCIDR0 wg_down (wd_device relay0) (wd_interfaceName relay0)
          \<lparr> pc_PublicKey = ''/ZaM0KJ8hco2L4RD2PLsKvwY7H+JvTJ8JTcnehxJ1U8='', pc_Endpoint = [], pc_AllowedIPs = [''10.8.0.1'' @ ''/32''] \<rparr>)
   = Some ''failed to add peer to wg-relay-sn-us: file does not exist''"
  by (simp add: AddPeer_def wg_down_def ParseKey0_def ParseCIDR0_def relay0_def
      NewWireGuardDataplane_def)

theorem peer_add_failure_rolls_back_witness:
  "(currentMode exit_peer0 = ModeExit \<or> currentMode exit_peer0 = ModeHybrid)
   \<and> payload (Payload bad_key_cmd) ''client_id'' \<noteq> []
   \<and> payload (Payload bad_key_cmd) ''client_pubkey'' \<noteq> []
   \<and> payload (Payload bad_key_cmd) ''session_id'' \<noteq> []
   \<and> activeClients exit_peer0 (payload (Payload bad_key_cmd) ''client_id'') = None
   \<and> AllocateIP ParseCIDR0 (up_ipAllocator exit_peer0)
       = Some (Inr ''10.9.0.1'', \<lparr> ia_cidr = ''10.9.0.0/24'', usedIPs = [''10.9.0.1'' \<mapsto> True] \<rparr>)
   \<and> (\<exists>up'. handleSetupExitCommand ParseCIDR0 exit_peer0 bad_key_cmd t0 wg_up
              = Some (\<lparr> resp_CommandId = CommandId bad_key_cmd, resp_Success = False,
                        resp_Message = ''Failed to add client: failed to add peer to WireGuard: ''
                                         @ ''invalid public key: wgtypes: incorrect key size: 10'',
                        resp_Result = Map.empty \<rparr>, up')
        \<and> activeClients up' = activeClients exit_peer0
        \<and> lookup (usedIPs (up_ipAllocator up')) = lookup (usedIPs (up_ipAllocator exit_peer0))
        \<and> \<not> lookup (usedIPs (up_ipAllocator up')) ''10.9.0.1''
        \<and> up_device up' = up_device exit_peer0)
   \<and> find (\<lambda>peer. pi_ClientID peer = ''c1'') (rangeValues (activePeers relay0) []) = None
   \<and> AllocateIP ParseCIDR0 (wd_ipAllocator relay0)
       = Some (Inr ''10.8.0.1'', \<lparr> ia_cidr = ''10.8.0.0/24'', usedIPs = [''10.8.0.1'' \<mapsto> True] \<rparr>)
   \<and> (\<exists>wd'. SetupRelayForClient ParseCIDR0 relay0 [] ''c1'' ''/ZaM0KJ8hco2L4RD2PLsKvwY7H+JvTJ8JTcnehxJ1U8='' ''s1'' wg_down
              = Some (Inl (''failed to add peer to WireGuard: ''
                            @ ''failed to add peer to wg-relay-sn-us: file does not exist''), wd')
        \<and> activePeers wd' = activePeers relay0
        \<and> lookup (usedIPs (wd_ipAllocator wd')) = lookup (usedIPs (wd_ipAllocator relay0))
        \<and> \<not> lookup (usedIPs (wd_ipAllocator wd')) ''10.8.0.1''
        \<and> wd_device wd' = wd_device relay0)"
proof -
  have h: "(currentMode exit_peer0 = ModeExit \<or> currentMode exit_peer0 = ModeHybrid)
     \<and> payload (Payload bad_key_cmd) ''client_id'' \<noteq> []
     \<and> payload (Payload bad_key_cmd) ''client_pubkey'' \<noteq> []
     \<and> payload (Payload bad_key_cmd) ''session_id'' \<noteq> []
     \<and> activeClients exit_peer0 (payload (Payload bad_key_cmd) ''client_id'') = None"
    by (simp add: exit_peer0_def bad_key_cmd_def payload_def)
  have g: "find (\<lambda>peer. pi_ClientID peer = ''c1'') (rangeValues (activePeers relay0) []) = None"
    by (simp add: rangeValues_def List.map_filter_simps)
  note t = peer_add_failure_rolls_back[of exit_peer0 bad_key_cmd ParseCIDR0 "''10.9.0.1''"
      "\<lparr> ia_cidr = ''10.9.0.0/24'', usedIPs = [''10.9.0.1'' \<mapsto> True] \<rparr>" wg_up
      "''invalid public key: wgtypes: incorrect key size: 10''" t0
      "''c1''" relay0 "[]" "''10.8.0.1''"
      "\<lparr> ia_cidr = ''10.8.0.0/24'', usedIPs = [''10.8.0.1'' \<mapsto> True] \<rparr>" wg_down
      "''/ZaM0KJ8hco2L4RD2PLsKvwY7H+JvTJ8JTcnehxJ1U8=''" "''failed to add peer to wg-relay-sn-us: file does not exist''" "''s1''"]
  from t h alloc_exit_peer0 bad_key_refused g alloc_relay0 device_gone show ?thesis
    by blast
qed



section \<open>Peer stream client: \<^verbatim>\<open>clientPeer/client/persistent_stream.go\<close>\<close>

text \<open>
  The fields of \<^verbatim>\<open>PersistentStreamManager\<close> that the reconnect logic reads and writes.
  The gRPC connection, the stream and the key pair are handles of the outside world.
\<close>

record PersistentStreamManager =
  psm_peerID :: string
  psm_role :: string
  psm_region :: string
  psm_supernodeAddr :: string
  psm_sessionID :: string
  isConnected :: bool
  lastHeartbeat :: time
  reconnectDelay :: duration

text \<open>
  \<^verbatim>\<open>NewPersistentStreamManager\<close>: \<open>keyErr\<close> is the error of \<^verbatim>\<open>utils.GenerateKeyPair\<close>,
  if any. The zero values of Go fill the fields the constructor does not set.
\<close>

definition NewPersistentStreamManager ::
  "string \<Rightarrow> string \<Rightarrow> string \<Rightarrow> string \<Rightarrow> string option \<Rightarrow> string + PersistentStreamManager"
where
  "NewPersistentStreamManager peerID role region supernodeAddr keyErr =
     (case keyErr of
        Some e \<Rightarrow> Inl (''failed to generate key pair: '' @ e)
      | None \<Rightarrow> Inr \<lparr> psm_peerID = peerID, psm_role = role, psm_region = region,
                       psm_supernodeAddr = supernodeAddr, psm_sessionID = [],
                       isConnected = False, lastHeartbeat = 0,
                       reconnectDelay = 5 * Second \<rparr>)"

text \<open>
  \<^verbatim>\<open>connect\<close> dials, opens the stream and authenticates. Its outcome is decided by the
  network and the coordinator: \<open>Inl e\<close> when one of the three steps fails with \<open>e\<close>,
  \<open>Inr sid\<close> when the coordinator answered the AuthRequest with success and session
  identifier \<open>sid\<close>. Only a successful authentication sets \<open>isConnected\<close>.
\<close>

definition connect ::
  "PersistentStreamManager \<Rightarrow> time \<Rightarrow> string + string \<Rightarrow> string option \<times> PersistentStreamManager"
where
  "connect psm now outcome =
     (case outcome of
        Inl e \<Rightarrow> (Some e, psm)
      | Inr sid \<Rightarrow> (None, psm\<lparr> psm_sessionID := sid, isConnected := True,
                                lastHeartbeat := now \<rparr>))"

text \<open>
  One turn of the \<^verbatim>\<open>for\<close> loop of \<^verbatim>\<open>reconnectLoop\<close>. The result is the manager after
  the turn and the durations the turn slept, in order. The loop never ends by itself;
  \<open>reconnectLoop\<close> runs it over the finite list of what the outside world did at each
  turn: whether the reader or the heartbeat goroutine dropped the connection since the
  last turn (\<open>lost\<close>), the clock, and the outcome \<^verbatim>\<open>connect\<close> would have.
\<close>

record turn =
  lost :: bool
  clock :: time
  dial :: "string + string"

definition reconnectTurn ::
  "PersistentStreamManager \<Rightarrow> turn \<Rightarrow> PersistentStreamManager \<times> duration list"
where
  "reconnectTurn psm0 t =
     (let psm = (if lost t then psm0\<lparr> isConnected := False \<rparr> else psm0) in
      if \<not> isConnected psm then
        (case connect psm (clock t) (dial t) of
           (Some e, psm1) \<Rightarrow>
             (if reconnectDelay psm1 < 60 * Second
              then psm1\<lparr> reconnectDelay := reconnectDelay psm1 * 2 \<rparr>
              else psm1,
              [reconnectDelay psm1, 5 * Second])
         | (None, psm1) \<Rightarrow>
             (psm1\<lparr> reconnectDelay := 5 * Second \<rparr>, [5 * Second]))
      else (psm, [5 * Second]))"

fun reconnectLoop ::
  "PersistentStreamManager \<Rightarrow> turn list \<Rightarrow> PersistentStreamManager \<times> duration list"
where
  "reconnectLoop psm [] = (psm, [])"
| "reconnectLoop psm (t # ts) =
     (let (psm1, s1) = reconnectTurn psm t; (psm2, s2) = reconnectLoop psm1 ts
      in (psm2, s1 @ s2))"

text \<open>A turn at which the dial fails, and a manager that has just lost its connection.\<close>

definition failing :: turn where
  "failing = \<lparr> lost = False, clock = 0, dial = Inl ''connection refused'' \<rparr>"

definition fresh_psm :: PersistentStreamManager where
  "fresh_psm = \<lparr> psm_peerID = ''p1'', psm_role = ''client'', psm_region = ''r1'',
                 psm_supernodeAddr = ''127.0.0.1:50052'', psm_sessionID = [],
                 isConnected = False, lastHeartbeat = 0, reconnectDelay = 5 * Second \<rparr>"

section \<open>Properties of the reconnect delay\<close>

lemma NewPersistentStreamManager_delay:
  "NewPersistentStreamManager p r g a None = Inr psm \<Longrightarrow> reconnectDelay psm = 5 * Second"
  by (auto simp: NewPersistentStreamManager_def)

lemma reconnectTurn_success_resets:
  "\<not> isConnected psm \<Longrightarrow> \<not> lost t \<Longrightarrow> dial t = Inr sid \<Longrightarrow>
   reconnectDelay (fst (reconnectTurn psm t)) = 5 * Second"
  by (simp add: reconnectTurn_def connect_def)

lemma reconnectTurn_failure_doubles:
  "\<not> isConnected psm \<Longrightarrow> dial t = Inl e \<Longrightarrow> reconnectDelay psm < 60 * Second \<Longrightarrow>
   reconnectDelay (fst (reconnectTurn psm t)) = 2 * reconnectDelay psm"
  by (simp add: reconnectTurn_def connect_def Let_def)

text \<open>
  The delay the loop can reach is one of 5, 10, 20, 40 and 80 seconds: every value below
  the 60 s threshold is doubled, so 40 s becomes 80 s, and 80 s is kept.
\<close>

definition delay_values :: "duration set" where
  "delay_values = {5 * Second, 10 * Second, 20 * Second, 40 * Second, 80 * Second}"

lemma reconnectTurn_delay_values:
  "reconnectDelay psm \<in> delay_values \<Longrightarrow>
   reconnectDelay (fst (reconnectTurn psm t)) \<in> delay_values"
  by (auto simp: reconnectTurn_def connect_def Let_def delay_values_def Second_def
      split: sum.splits)

lemma reconnectLoop_delay_values:
  "reconnectDelay psm \<in> delay_values \<Longrightarrow>
   reconnectDelay (fst (reconnectLoop psm ts)) \<in> delay_values"
proof (induction ts arbitrary: psm)
  case Nil
  then show ?case by simp
next
  case (Cons t ts)
  have "reconnectDelay (fst (reconnectTurn psm t)) \<in> delay_values"
    using Cons.prems by (rule reconnectTurn_delay_values)
  then have "reconnectDelay (fst (reconnectLoop (fst (reconnectTurn psm t)) ts)) \<in> delay_values"
    by (rule Cons.IH)
  then show ?case by (simp add: split_beta Let_def)
qed

text \<open>
  C5. The reconnect delay starts at 5 s and doubles on a failure, but it is not capped at
  60 s: the test \<^verbatim>\<open>reconnectDelay < 60*time.Second\<close> is made before the doubling, so four
  consecutive failures leave the delay at 80 s, and the fifth failure sleeps 80 s (the
  sleeps of five failing turns are the delay followed by the fixed 5 s pause of the
  loop: 5, 5, 10, 5, 20, 5, 40, 5, 80, 5 seconds).
\<close>

theorem reconnect_delay_reaches_80s:
  "reconnectDelay (fst (reconnectLoop fresh_psm (replicate 4 failing))) = 80 * Second
   \<and> snd (reconnectLoop fresh_psm (replicate 5 failing)) =
       [5 * Second, 5 * Second, 10 * Second, 5 * Second, 20 * Second, 5 * Second,
        40 * Second, 5 * Second, 80 * Second, 5 * Second]
   \<and> 60 * Second < reconnectDelay (fst (reconnectLoop fresh_psm (replicate 4 failing)))"
  by (simp add: numeral_eq_Suc reconnectTurn_def connect_def failing_def fresh_psm_def
      Second_def Let_def)

section \<open>Control messages: \<^verbatim>\<open>clientPeer/proto\<close>\<close>

record AuthRequest =
  ar_PeerId :: string
  ar_Role :: string
  ar_PubkeyB64 :: string
  ar_Region :: string
  ar_Signature :: string
  ar_Nonce :: string

record AuthResponse =
  aresp_Success :: bool
  aresp_Message :: string
  aresp_SessionId :: string

record PingRequest =
  ping_Timestamp :: "64 word"
  ping_PeerId :: string

record PongResponse =
  pong_Timestamp :: "64 word"
  pong_OriginalTimestamp :: "64 word"
  pong_PeerId :: string

record InfoRequest =
  ireq_PeerId :: string
  RequestedFields :: "string list"

record InfoResponse =
  iresp_PeerId :: string
  Info :: "string \<rightharpoonup> string"

datatype payload =
    P_AuthRequest AuthRequest
  | P_AuthResponse AuthResponse
  | P_PingRequest PingRequest
  | P_PongResponse PongResponse
  | P_Command Command
  | P_CommandResponse CommandResponse
  | P_InfoRequest InfoRequest
  | P_InfoResponse InfoResponse
  | P_Other

record ControlMessage =
  MessageId :: string
  msg_Timestamp :: int
  msg_Payload :: payload

datatype code = InvalidArgument | Unauthenticated | Internal

datatype status = Status code string

section \<open>Stream manager: sessions of the coordinator\<close>

text \<open>
  The map \<^verbatim>\<open>streams\<close> holds pointers to \<^verbatim>\<open>StreamInfo\<close> objects, and an object that has been
  replaced or removed from the map lives on for whoever still holds its pointer. So the
  objects are kept in a store, \<open>objects\<close>, under references; \<open>allocated\<close> is the next
  unused reference and \<open>streams\<close> maps a peer identifier to a reference. \<open>entry\<close> reads the
  map and follows the pointer; \<open>modify\<close> writes through a pointer. The statistics object
  of a session is only reached through its session and is a field of it. The clock is
  the argument \<open>now\<close> of the functions that read it.
\<close>

definition RoleClient :: string where "RoleClient = ''client''"
definition RoleExit :: string where "RoleExit = ''exit''"
definition RoleSuperNode :: string where "RoleSuperNode = ''supernode''"
definition RoleHybrid :: string where "RoleHybrid = ''hybrid''"

record PeerStats =
  MessagesReceived :: int
  MessagesSent :: int
  CommandsExecuted :: int
  CommandsFailed :: int
  LatencyMs :: int
  ConnectedSince :: time

record StreamInfo =
  si_PeerID :: string
  si_Role :: string
  si_Region :: string
  si_SessionID :: string
  si_Stream :: nat
  LastHeartbeat :: time
  si_PublicKey :: string
  IsActive :: bool
  Stats :: PeerStats

type_synonym ref = nat

record StreamManager =
  objects :: "ref \<rightharpoonup> StreamInfo"
  allocated :: nat
  streams :: "string \<rightharpoonup> ref"
  activeStreams :: int
  authFailures :: int
  commandsProcessed :: int
  commandsSucceeded :: int
  commandsFailed :: int

definition NewStreamManager :: StreamManager where
  "NewStreamManager = \<lparr> objects = Map.empty, allocated = 0, streams = Map.empty,
      activeStreams = 0, authFailures = 0, commandsProcessed = 0, commandsSucceeded = 0,
      commandsFailed = 0 \<rparr>"

definition modify :: "StreamManager \<Rightarrow> ref \<Rightarrow> (StreamInfo \<Rightarrow> StreamInfo) \<Rightarrow> StreamManager" where
  "modify sm a f = sm\<lparr> objects := (case objects sm a of
                                        None \<Rightarrow> objects sm
                                      | Some s \<Rightarrow> (objects sm)(a \<mapsto> f s)) \<rparr>"

definition entry :: "StreamManager \<Rightarrow> string \<Rightarrow> (ref \<times> StreamInfo) option" where
  "entry sm peerID =
     (case streams sm peerID of
        None \<Rightarrow> None
      | Some a \<Rightarrow> (case objects sm a of None \<Rightarrow> None | Some s \<Rightarrow> Some (a, s)))"

definition RegisterStream ::
  "StreamManager \<Rightarrow> string \<Rightarrow> string \<Rightarrow> string \<Rightarrow> string \<Rightarrow> nat \<Rightarrow> time \<Rightarrow> string \<times> StreamManager"
where
  "RegisterStream sm peerID role region publicKey stream now =
     (let sessionID = peerID @ ''-'' @ itoa_int (Unix now);
          sm1 = (case entry sm peerID of
                   Some (a, existing) \<Rightarrow>
                     (if IsActive existing then modify sm a (\<lambda>s. s\<lparr> IsActive := False \<rparr>) else sm)
                 | None \<Rightarrow> sm);
          streamInfo = \<lparr> si_PeerID = peerID, si_Role = role, si_Region = region,
                         si_SessionID = sessionID, si_Stream = stream, LastHeartbeat = now,
                         si_PublicKey = publicKey, IsActive = True,
                         Stats = \<lparr> MessagesReceived = 0, MessagesSent = 0, CommandsExecuted = 0,
                                   CommandsFailed = 0, LatencyMs = 0, ConnectedSince = now \<rparr> \<rparr>;
          a = allocated sm1
      in (sessionID,
          sm1\<lparr> objects := (objects sm1)(a \<mapsto> streamInfo), allocated := Suc a,
               streams := (streams sm1)(peerID \<mapsto> a),
               activeStreams := activeStreams sm1 + 1 \<rparr>))"

definition UnregisterStream :: "StreamManager \<Rightarrow> string \<Rightarrow> StreamManager" where
  "UnregisterStream sm peerID =
     (case entry sm peerID of
        Some (a, streamInfo) \<Rightarrow>
          (let sm1 = modify sm a (\<lambda>s. s\<lparr> IsActive := False \<rparr>)
           in sm1\<lparr> streams := (streams sm1)(peerID := None),
                   activeStreams := activeStreams sm1 - 1 \<rparr>)
      | None \<Rightarrow> sm)"

definition GetStream :: "StreamManager \<Rightarrow> string \<Rightarrow> (ref \<times> StreamInfo) option" where
  "GetStream sm peerID =
     (case entry sm peerID of
        Some (a, streamInfo) \<Rightarrow> (if IsActive streamInfo then Some (a, streamInfo) else None)
      | None \<Rightarrow> None)"

definition GetActiveStreams :: "StreamManager \<Rightarrow> string list \<Rightarrow> (ref \<times> StreamInfo) list" where
  "GetActiveStreams sm order =
     filter (\<lambda>(a, streamInfo). IsActive streamInfo) (rangeValues (entry sm) order)"


definition SendCommandToPeer ::
  "StreamManager \<Rightarrow> string \<Rightarrow> Command \<Rightarrow> time \<Rightarrow> string option \<Rightarrow>
   string option \<times> StreamManager \<times> (nat \<times> ControlMessage) list"
where
  "SendCommandToPeer sm peerID command now sendErr =
     (case GetStream sm peerID of
        None \<Rightarrow> (Some (''no active stream for peer '' @ peerID), sm, [])
      | Some (a, streamInfo) \<Rightarrow>
          (let message = \<lparr> MessageId = ''cmd-'' @ itoa_int (UnixNano now),
                           msg_Timestamp = Unix now, msg_Payload = P_Command command \<rparr> in
           case sendErr of
             Some err \<Rightarrow>
               (Some (''failed to send command to peer '' @ peerID @ '': '' @ err),
                sm\<lparr> commandsFailed := commandsFailed sm + 1 \<rparr>, [])
           | None \<Rightarrow>
               (None,
                (modify sm a
                   (\<lambda>s. s\<lparr> Stats := (Stats s)\<lparr> MessagesSent := MessagesSent (Stats s) + 1 \<rparr> \<rparr>))
                  \<lparr> commandsProcessed := commandsProcessed sm + 1 \<rparr>,
                [(si_Stream streamInfo, message)])))"

definition UpdateHeartbeat :: "StreamManager \<Rightarrow> string \<Rightarrow> int \<Rightarrow> time \<Rightarrow> StreamManager" where
  "UpdateHeartbeat sm peerID latencyMs now =
     (case GetStream sm peerID of
        Some (a, streamInfo) \<Rightarrow>
          modify sm a
            (\<lambda>s. s\<lparr> LastHeartbeat := now,
                     Stats := (Stats s)\<lparr> LatencyMs := latencyMs,
                                          MessagesReceived := MessagesReceived (Stats s) + 1 \<rparr> \<rparr>)
      | None \<Rightarrow> sm)"

definition UpdateCommandResult :: "StreamManager \<Rightarrow> string \<Rightarrow> bool \<Rightarrow> StreamManager" where
  "UpdateCommandResult sm peerID success =
     (case GetStream sm peerID of
        Some (a, streamInfo) \<Rightarrow>
          (let sm1 = modify sm a
                 (\<lambda>s. s\<lparr> Stats := (Stats s)\<lparr> CommandsExecuted := CommandsExecuted (Stats s) + 1 \<rparr> \<rparr>)
           in if success then sm1\<lparr> commandsSucceeded := commandsSucceeded sm1 + 1 \<rparr>
              else (modify sm1 a
                      (\<lambda>s. s\<lparr> Stats := (Stats s)\<lparr> CommandsFailed := CommandsFailed (Stats s) + 1 \<rparr> \<rparr>))
                     \<lparr> commandsFailed := commandsFailed sm1 + 1 \<rparr>)
      | None \<Rightarrow> sm)"

definition removeStale :: "StreamManager \<Rightarrow> string \<Rightarrow> StreamManager" where
  "removeStale sm peerID =
     (case streams sm peerID of
        Some a \<Rightarrow>
          (let sm1 = modify sm a (\<lambda>s. s\<lparr> IsActive := False \<rparr>)
           in sm1\<lparr> streams := (streams sm1)(peerID := None),
                   activeStreams := activeStreams sm1 - 1 \<rparr>)
      | None \<Rightarrow> sm)"

definition CheckStaleStreams :: "StreamManager \<Rightarrow> string list \<Rightarrow> duration \<Rightarrow> time \<Rightarrow> StreamManager" where
  "CheckStaleStreams sm order timeout now =
     (let staleStreams =
            filter (\<lambda>peerID. case entry sm peerID of
                               Some (a, streamInfo) \<Rightarrow>
                                 IsActive streamInfo \<and> now - LastHeartbeat streamInfo > timeout
                             | None \<Rightarrow> False) order
      in fold (\<lambda>peerID sm'. removeStale sm' peerID) staleStreams sm)"

definition IncrementAuthFailures :: "StreamManager \<Rightarrow> StreamManager" where
  "IncrementAuthFailures sm = sm\<lparr> authFailures := authFailures sm + 1 \<rparr>"

section \<open>Coordinator: the control stream server\<close>

text \<open>
  The fields of \<^verbatim>\<open>SuperNode\<close> that the handlers below read. The constructor derives the
  relay interface and port from the identifier.
\<close>

record SuperNode =
  sn_id :: string
  sn_region :: string
  listenAddr :: string
  streamManager :: StreamManager
  baseNodeAddr :: string
  relayInterface :: string
  relayPort :: int

definition NewSuperNode :: "string \<Rightarrow> string \<Rightarrow> string \<Rightarrow> string \<Rightarrow> SuperNode" where
  "NewSuperNode ident region addr baseAddr =
     \<lparr> sn_id = ident, sn_region = region, listenAddr = addr,
       streamManager = NewStreamManager, baseNodeAddr = baseAddr,
       relayInterface = ''wg-relay-'' @ ident,
       relayPort = 51820 + int (length ident) mod 1000 \<rparr>"

text \<open>
  What a handler meets outside the program during one message: the clock when the
  handler reads it (\<open>io_now\<close>) and when the stream manager reads it again for the heartbeat
  (\<open>io_later\<close>), the error of \<^verbatim>\<open>stream.Send\<close>, if any, and the order in which the runtime
  iterates over the stream map. A stream is named by a number. Every function returns the
  messages it has sent, with the stream each was sent on.
\<close>

record io =
  io_now :: time
  io_later :: time
  io_sendErr :: "string option"
  io_order :: "string list"

text \<open>
  \<^verbatim>\<open>verifyAuthSignature\<close> rebuilds the signed text, decodes key and signature with
  \<^verbatim>\<open>base64.StdEncoding.DecodeString\<close> and calls \<^verbatim>\<open>ed25519.Verify\<close>. Both belong to the Go
  library and are the fields of \<open>stdlib\<close>; a decoding yields its error text or the bytes.
  \<^verbatim>\<open>ed25519.Verify\<close> panics when the key is not 32 bytes long, and nothing in the server
  recovers: that is the result \<open>Panic\<close>.
\<close>

record stdlib =
  DecodeString :: "string \<Rightarrow> string + 8 word list"
  Verify :: "8 word list \<Rightarrow> string \<Rightarrow> 8 word list \<Rightarrow> bool"

datatype 'a result = Panic string | Value 'a

definition verifyAuthSignature :: "stdlib \<Rightarrow> AuthRequest \<Rightarrow> string option result" where
  "verifyAuthSignature lib req =
     (let message = ar_PeerId req @ ''||'' @ ar_Role req @ ''||'' @ ar_Region req @ ''||''
                      @ ar_Nonce req
      in case DecodeString lib (ar_PubkeyB64 req) of
           Inl err \<Rightarrow> Value (Some (''invalid public key encoding: '' @ err))
         | Inr pubKeyBytes \<Rightarrow>
             (case DecodeString lib (ar_Signature req) of
                Inl err \<Rightarrow> Value (Some (''invalid signature encoding: '' @ err))
              | Inr signatureBytes \<Rightarrow>
                  if length pubKeyBytes \<noteq> 32
                  then Panic (''ed25519: bad public key length: '' @ itoa (length pubKeyBytes))
                  else if \<not> Verify lib pubKeyBytes message signatureBytes
                  then Value (Some ''signature verification failed'')
                  else Value None))"

definition handleAuthRequest ::
  "stdlib \<Rightarrow> SuperNode \<Rightarrow> AuthRequest \<Rightarrow> nat \<Rightarrow> io \<Rightarrow>
   (string + string \<times> string) result \<times> SuperNode \<times> (nat \<times> ControlMessage) list"
where
  "handleAuthRequest lib sn req stream w =
     (let role = ar_Role req in
      if role \<noteq> RoleClient \<and> role \<noteq> RoleExit \<and> role \<noteq> RoleHybrid
      then (Value (Inl (''invalid role: '' @ ar_Role req)), sn, [])
      else
        (case verifyAuthSignature lib req of
           Panic p \<Rightarrow> (Panic p, sn, [])
         | Value (Some err) \<Rightarrow> (Value (Inl (''signature verification failed: '' @ err)), sn, [])
         | Value None \<Rightarrow>
             (let (sessionID, sm) =
                    RegisterStream (streamManager sn) (ar_PeerId req) role (ar_Region req)
                      (ar_PubkeyB64 req) stream (io_now w);
                  sn1 = sn\<lparr> streamManager := sm \<rparr>;
                  response =
                    \<lparr> MessageId = ''auth-resp-'' @ itoa_int (UnixNano (io_now w)),
                      msg_Timestamp = Unix (io_now w),
                      msg_Payload = P_AuthResponse
                        \<lparr> aresp_Success = True, aresp_Message = ''Authentication successful'',
                          aresp_SessionId = sessionID \<rparr> \<rparr>
              in case io_sendErr w of
                   Some err \<Rightarrow> (Value (Inl (''failed to send auth response: '' @ err)), sn1, [])
                 | None \<Rightarrow> (Value (Inr (ar_PeerId req, sessionID)), sn1, [(stream, response)]))))"

text \<open>
  \<^verbatim>\<open>handlePingRequest\<close> subtracts two \<^verbatim>\<open>int64\<close> and converts the difference to
  \<^verbatim>\<open>float64\<close>. The subtraction is that of 64-bit words. \<open>float64\<close> is the conversion: an
  integer of at most 53 bits is kept, a longer one is rounded to 53 significant bits,
  ties to even; the result is again an integer, so \<^verbatim>\<open>LatencyMs\<close> is one.
\<close>

definition float64 :: "int \<Rightarrow> int" where
  "float64 x =
     (let m = \<bar>x\<bar>; e = bitlen m - 53 in
      if e \<le> 0 then x
      else (let q = m div 2 ^ nat e; r = m mod 2 ^ nat e;
                q' = (if 2 * r > 2 ^ nat e \<or> (2 * r = 2 ^ nat e \<and> odd q) then q + 1 else q)
            in sgn x * q' * 2 ^ nat e))"

definition handlePingRequest ::
  "SuperNode \<Rightarrow> PingRequest \<Rightarrow> nat \<Rightarrow> io \<Rightarrow>
   string option \<times> SuperNode \<times> (nat \<times> ControlMessage) list"
where
  "handlePingRequest sn req stream w =
     (let now = io_now w;
          latencyMs = float64 (sint (word_of_int (UnixMilli now) - ping_Timestamp req :: 64 word));
          sn1 = sn\<lparr> streamManager :=
                      UpdateHeartbeat (streamManager sn) (ping_PeerId req) latencyMs (io_later w) \<rparr>;
          response =
            \<lparr> MessageId = ''pong-'' @ itoa_int (UnixNano now),
              msg_Timestamp = Unix now,
              msg_Payload = P_PongResponse
                \<lparr> pong_Timestamp = word_of_int (UnixMilli now),
                  pong_OriginalTimestamp = ping_Timestamp req,
                  pong_PeerId = ping_PeerId req \<rparr> \<rparr>
      in case io_sendErr w of
           Some err \<Rightarrow> (Some err, sn1, [])
         | None \<Rightarrow> (None, sn1, [(stream, response)]))"

definition handleCommandResponse :: "SuperNode \<Rightarrow> string \<Rightarrow> CommandResponse \<Rightarrow> SuperNode" where
  "handleCommandResponse sn peerID resp =
     sn\<lparr> streamManager := UpdateCommandResult (streamManager sn) peerID (resp_Success resp) \<rparr>"

definition infoField :: "SuperNode \<Rightarrow> string list \<Rightarrow> string \<Rightarrow> string" where
  "infoField sn order field =
     (if field = ''active_peers''
      then itoa (length (GetActiveStreams (streamManager sn) order))
      else if field = ''region'' then sn_region sn
      else if field = ''supernode_id'' then sn_id sn
      else ''unknown'')"

definition handleInfoRequest ::
  "SuperNode \<Rightarrow> InfoRequest \<Rightarrow> nat \<Rightarrow> io \<Rightarrow> string option \<times> (nat \<times> ControlMessage) list"
where
  "handleInfoRequest sn req stream w =
     (let info = fold (\<lambda>field m. m(field \<mapsto> infoField sn (io_order w) field))
                   (RequestedFields req) Map.empty;
          response =
            \<lparr> MessageId = ''info-resp-'' @ itoa_int (UnixNano (io_now w)),
              msg_Timestamp = Unix (io_now w),
              msg_Payload = P_InfoResponse \<lparr> iresp_PeerId = ireq_PeerId req, Info = info \<rparr> \<rparr>
      in case io_sendErr w of
           Some err \<Rightarrow> (Some err, [])
         | None \<Rightarrow> (None, [(stream, response)]))"

text \<open>
  \<^verbatim>\<open>PersistentControlStream\<close> runs once per stream. \<open>handler\<close> holds its local variables.
  \<open>streamStep\<close> is one turn of its loop on what \<^verbatim>\<open>stream.Recv\<close> delivers: the loop
  continues, or the function returns (\<^verbatim>\<open>nil\<close> or an error), or it panics. \<open>streamExit\<close> is
  the deferred function, which runs when the function returns or panics. \<open>serve\<close> runs the
  loop over a list of deliveries.
\<close>

datatype recv = Recv ControlMessage | EOF | RecvError string

datatype rpc_error = StatusError code string | PlainError string

datatype outcome = Continue | Return "rpc_error option" | Panicked string

datatype ending = Open | Returned "rpc_error option" | Crashed string

record handler =
  h_stream :: nat
  h_peerID :: string
  authenticated :: bool

definition newHandler :: "nat \<Rightarrow> handler" where
  "newHandler stream = \<lparr> h_stream = stream, h_peerID = [], authenticated = False \<rparr>"

definition streamStep ::
  "stdlib \<Rightarrow> SuperNode \<Rightarrow> handler \<Rightarrow> recv \<Rightarrow> io \<Rightarrow>
   outcome \<times> handler \<times> SuperNode \<times> (nat \<times> ControlMessage) list"
where
  "streamStep lib sn h ev w =
     (case ev of
        EOF \<Rightarrow> (Return None, h, sn, [])
      | RecvError err \<Rightarrow> (Return (Some (PlainError err)), h, sn, [])
      | Recv msg \<Rightarrow>
          (case msg_Payload msg of
             P_AuthRequest req \<Rightarrow>
               (case handleAuthRequest lib sn req (h_stream h) w of
                  (Panic p, sn1, sent) \<Rightarrow> (Panicked p, h, sn1, sent)
                | (Value (Inl err), sn1, sent) \<Rightarrow>
                    (Return (Some (StatusError Unauthenticated (''authentication failed: '' @ err))),
                     h\<lparr> h_peerID := [] \<rparr>,
                     sn1\<lparr> streamManager := IncrementAuthFailures (streamManager sn1) \<rparr>, sent)
                | (Value (Inr (peerID, sessionID)), sn1, sent) \<Rightarrow>
                    (Continue, h\<lparr> h_peerID := peerID, authenticated := True \<rparr>, sn1, sent))
           | P_PingRequest req \<Rightarrow>
               (if \<not> authenticated h
                then (Return (Some (StatusError Unauthenticated ''not authenticated'')), h, sn, [])
                else (case handlePingRequest sn req (h_stream h) w of
                        (err, sn1, sent) \<Rightarrow> (Continue, h, sn1, sent)))
           | P_CommandResponse resp \<Rightarrow>
               (if \<not> authenticated h
                then (Return (Some (StatusError Unauthenticated ''not authenticated'')), h, sn, [])
                else (Continue, h, handleCommandResponse sn (h_peerID h) resp, []))
           | P_InfoRequest req \<Rightarrow>
               (if \<not> authenticated h
                then (Return (Some (StatusError Unauthenticated ''not authenticated'')), h, sn, [])
                else (case handleInfoRequest sn req (h_stream h) w of
                        (err, sent) \<Rightarrow> (Continue, h, sn, sent)))
           | _ \<Rightarrow> (Continue, h, sn, [])))"

definition streamExit :: "SuperNode \<Rightarrow> handler \<Rightarrow> SuperNode" where
  "streamExit sn h =
     (if authenticated h \<and> h_peerID h \<noteq> []
      then sn\<lparr> streamManager := UnregisterStream (streamManager sn) (h_peerID h) \<rparr>
      else sn)"

fun serve ::
  "stdlib \<Rightarrow> SuperNode \<Rightarrow> handler \<Rightarrow> (recv \<times> io) list \<Rightarrow>
   ending \<times> handler \<times> SuperNode \<times> (nat \<times> ControlMessage) list"
where
  "serve lib sn h [] = (Open, h, sn, [])"
| "serve lib sn h ((ev, w) # rest) =
     (case streamStep lib sn h ev w of
        (Continue, h1, sn1, sent) \<Rightarrow>
          (case serve lib sn1 h1 rest of
             (r, h2, sn2, sent2) \<Rightarrow> (r, h2, sn2, sent @ sent2))
      | (Return r, h1, sn1, sent) \<Rightarrow> (Returned r, h1, streamExit sn1 h1, sent)
      | (Panicked p, h1, sn1, sent) \<Rightarrow> (Crashed p, h1, streamExit sn1 h1, sent))"

definition PersistentControlStream ::
  "stdlib \<Rightarrow> SuperNode \<Rightarrow> nat \<Rightarrow> (recv \<times> io) list \<Rightarrow>
   ending \<times> handler \<times> SuperNode \<times> (nat \<times> ControlMessage) list"
where
  "PersistentControlStream lib sn stream evs = serve lib sn (newHandler stream) evs"






subsection \<open>Authentication with a role that is not admitted\<close>

lemma handleAuthRequest_invalid_role:
  assumes "ar_Role req \<noteq> RoleClient" "ar_Role req \<noteq> RoleExit" "ar_Role req \<noteq> RoleHybrid"
  shows "handleAuthRequest lib sn req stream w
         = (Value (Inl (''invalid role: '' @ ar_Role req)), sn, [])"
  using assms by (simp add: handleAuthRequest_def Let_def)

text \<open>
  C7, amended: for every AuthRequest whose declared role is not in the permitted set
  \<open>{client, exit, hybrid}\<close>, authentication fails with \<^verbatim>\<open>Unauthenticated\<close> and the message
  \<^verbatim>\<open>authentication failed: invalid role: \<close> followed by the role, the error class the
  server uses for every authentication failure. The stream's handler returns, nothing
  is sent, no session is registered or changed, and the counter of authentication
  failures goes up by one. Key, signature and nonce are not looked at.
\<close>

theorem invalid_role_is_Unauthenticated:
  assumes "ar_Role req \<noteq> RoleClient" "ar_Role req \<noteq> RoleExit" "ar_Role req \<noteq> RoleHybrid"
    and "msg_Payload msg = P_AuthRequest req"
  shows "streamStep lib sn h (Recv msg) w
         = (Return (Some (StatusError Unauthenticated
                            (''authentication failed: invalid role: '' @ ar_Role req))),
            h\<lparr> h_peerID := [] \<rparr>,
            sn\<lparr> streamManager := IncrementAuthFailures (streamManager sn) \<rparr>, [])
       \<and> streams (streamManager (fst (snd (snd (streamStep lib sn h (Recv msg) w)))))
           = streams (streamManager sn)
       \<and> objects (streamManager (fst (snd (snd (streamStep lib sn h (Recv msg) w)))))
           = objects (streamManager sn)
       \<and> authFailures (streamManager (fst (snd (snd (streamStep lib sn h (Recv msg) w)))))
           = authFailures (streamManager sn) + 1"
  using assms(4) handleAuthRequest_invalid_role[OF assms(1-3), of lib sn "h_stream h" w]
  by (simp add: streamStep_def IncrementAuthFailures_def)

subsection \<open>Ping\<close>

lemma UpdateHeartbeat_found:
  assumes "GetStream sm peerID = Some (a, s)"
  shows "objects (UpdateHeartbeat sm peerID lat t) a
         = Some (s\<lparr> LastHeartbeat := t,
                    Stats := (Stats s)\<lparr> LatencyMs := lat,
                                         MessagesReceived := MessagesReceived (Stats s) + 1 \<rparr> \<rparr>)
       \<and> streams (UpdateHeartbeat sm peerID lat t) = streams sm
       \<and> (\<forall>b. b \<noteq> a \<longrightarrow> objects (UpdateHeartbeat sm peerID lat t) b = objects sm b)"
proof -
  from assms have e: "entry sm peerID = Some (a, s)"
    by (auto simp: GetStream_def split: option.splits if_splits)
  then have o: "objects sm a = Some s"
    by (auto simp: entry_def split: option.splits)
  show ?thesis using assms o by (simp add: UpdateHeartbeat_def modify_def)
qed

lemma UpdateHeartbeat_none:
  "GetStream sm peerID = None \<Longrightarrow> UpdateHeartbeat sm peerID lat t = sm"
  by (simp add: UpdateHeartbeat_def)

text \<open>
  The conversion to \<^verbatim>\<open>float64\<close> keeps an integer below \<open>2^53\<close> in magnitude, and never
  changes the sign.
\<close>

lemma float64_exact: "\<bar>x\<bar> < 2 ^ 53 \<Longrightarrow> float64 x = x"
proof -
  assume "\<bar>x\<bar> < 2 ^ 53"
  then have "bitlen \<bar>x\<bar> \<le> 53" by (simp add: bitlen_le_iff_power)
  then show ?thesis by (simp add: float64_def Let_def)
qed

lemma float64_nonpos: "x < 0 \<Longrightarrow> float64 x \<le> 0"
proof -
  assume x: "x < 0"
  have "0 \<le> q' * (2 :: int) ^ n" if "0 \<le> q'" for q' n using that by simp
  moreover have "0 \<le> \<bar>x\<bar> div 2 ^ n" for n by (simp add: pos_imp_zdiv_nonneg_iff)
  ultimately show ?thesis using x
    by (auto simp: float64_def Let_def mult_le_0_iff zero_le_mult_iff)
qed

text \<open>
  The subtraction is exact when the clock and the difference fit in 64 bits.
\<close>

lemma latency_exact:
  assumes "- (2 ^ 63) \<le> ms" "ms < 2 ^ 63"
    and "- (2 ^ 63) \<le> ms - sint t" "ms - sint t < 2 ^ 63"
  shows "sint (word_of_int ms - t :: 64 word) = ms - sint t"
proof -
  have "sint (word_of_int ms :: 64 word) = ms"
    using assms(1,2) by (simp add: sint_sbintrunc' signed_take_bit_int_eq_self)
  then have "sint (word_of_int ms - t :: 64 word) = signed_take_bit 63 (ms - sint t)"
    by (simp add: sint_word_ariths)
  also have "\<dots> = ms - sint t"
    using assms(3,4) by (simp add: signed_take_bit_int_eq_self)
  finally show ?thesis .
qed

definition pong :: "PingRequest \<Rightarrow> time \<Rightarrow> ControlMessage" where
  "pong req now =
     \<lparr> MessageId = ''pong-'' @ itoa_int (UnixNano now), msg_Timestamp = Unix now,
       msg_Payload = P_PongResponse
         \<lparr> pong_Timestamp = word_of_int (UnixMilli now),
           pong_OriginalTimestamp = ping_Timestamp req,
           pong_PeerId = ping_PeerId req \<rparr> \<rparr>"

definition stamped :: "StreamInfo \<Rightarrow> PingRequest \<Rightarrow> io \<Rightarrow> StreamInfo" where
  "stamped s req w =
     s\<lparr> LastHeartbeat := io_later w,
        Stats := (Stats s)
          \<lparr> LatencyMs := float64 (sint (word_of_int (UnixMilli (io_now w)) - ping_Timestamp req
                                        :: 64 word)),
            MessagesReceived := MessagesReceived (Stats s) + 1 \<rparr> \<rparr>"

text \<open>
  C8, amended: on every authenticated stream, a PingRequest carrying the client
  timestamp \<open>t\<close> and the peer identifier \<open>p\<close> is answered, when the send succeeds, by one
  PongResponse on that stream whose original timestamp is \<open>t\<close> (and whose peer identifier
  is \<open>p\<close>). The handler looks the session up under \<open>p\<close>, the identifier in the message:
  when \<open>p\<close> has an active session, as the sender's own identifier has while its session
  is registered, that session's latency is set to the \<^verbatim>\<open>float64\<close> of the 64-bit
  difference \<open>server_recv_ms - t\<close> and its last-heartbeat time is stamped, no other
  session changes; when \<open>p\<close> has none, nothing is recorded. The recorded latency is
  \<open>server_recv_ms - t\<close> itself whenever that difference is below \<open>2^53\<close> in magnitude.
\<close>

theorem ping_echoes_timestamp_and_stamps_heartbeat:
  assumes "authenticated h" and "msg_Payload msg = P_PingRequest req"
  shows "\<exists>sn'. streamStep lib sn h (Recv msg) w
           = (Continue, h, sn',
              if io_sendErr w = None then [(h_stream h, pong req (io_now w))] else [])
         \<and> pong_OriginalTimestamp
             (case msg_Payload (pong req (io_now w)) of P_PongResponse r \<Rightarrow> r) = ping_Timestamp req
         \<and> (\<forall>a s. GetStream (streamManager sn) (ping_PeerId req) = Some (a, s) \<longrightarrow>
               GetStream (streamManager sn') (ping_PeerId req) = Some (a, stamped s req w)
               \<and> LastHeartbeat (stamped s req w) = io_later w
               \<and> streams (streamManager sn') = streams (streamManager sn)
               \<and> (\<forall>b. b \<noteq> a \<longrightarrow> objects (streamManager sn') b = objects (streamManager sn) b))
         \<and> (GetStream (streamManager sn) (ping_PeerId req) = None \<longrightarrow> sn' = sn)
         \<and> (- (2 ^ 63) \<le> UnixMilli (io_now w) \<and> UnixMilli (io_now w) < 2 ^ 63
              \<and> \<bar>UnixMilli (io_now w) - sint (ping_Timestamp req)\<bar> < 2 ^ 53 \<longrightarrow>
             (\<forall>s. LatencyMs (Stats (stamped s req w))
                   = UnixMilli (io_now w) - sint (ping_Timestamp req)))"
proof -
  let ?lat = "float64 (sint (word_of_int (UnixMilli (io_now w)) - ping_Timestamp req :: 64 word))"
  let ?sm' = "UpdateHeartbeat (streamManager sn) (ping_PeerId req) ?lat (io_later w)"
  let ?sn' = "sn\<lparr> streamManager := ?sm' \<rparr>"
  have step: "streamStep lib sn h (Recv msg) w
           = (Continue, h, ?sn',
              if io_sendErr w = None then [(h_stream h, pong req (io_now w))] else [])"
    using assms
    by (cases "io_sendErr w") (simp_all add: streamStep_def handlePingRequest_def Let_def pong_def)
  have echo: "pong_OriginalTimestamp
             (case msg_Payload (pong req (io_now w)) of P_PongResponse r \<Rightarrow> r) = ping_Timestamp req"
    by (simp add: pong_def)
  have found: "GetStream (streamManager ?sn') (ping_PeerId req) = Some (a, stamped s req w)
               \<and> LastHeartbeat (stamped s req w) = io_later w
               \<and> streams (streamManager ?sn') = streams (streamManager sn)
               \<and> (\<forall>b. b \<noteq> a \<longrightarrow> objects (streamManager ?sn') b = objects (streamManager sn) b)"
    if g: "GetStream (streamManager sn) (ping_PeerId req) = Some (a, s)" for a s
  proof -
    from UpdateHeartbeat_found[OF g, of ?lat "io_later w"]
    have o: "objects ?sm' a = Some (stamped s req w)"
      and st: "streams ?sm' = streams (streamManager sn)"
      and ot: "\<forall>b. b \<noteq> a \<longrightarrow> objects ?sm' b = objects (streamManager sn) b"
      by (simp_all add: stamped_def)
    from g have "streams (streamManager sn) (ping_PeerId req) = Some a" "IsActive s"
      by (auto simp: GetStream_def entry_def split: option.splits if_splits)
    with o st have "GetStream ?sm' (ping_PeerId req) = Some (a, stamped s req w)"
      by (simp add: GetStream_def entry_def stamped_def)
    with st ot show ?thesis by (simp add: stamped_def)
  qed
  have none: "?sn' = sn" if "GetStream (streamManager sn) (ping_PeerId req) = None"
    using that by (simp add: UpdateHeartbeat_none)
  have exact: "LatencyMs (Stats (stamped s req w)) = UnixMilli (io_now w) - sint (ping_Timestamp req)"
    if b: "- (2 ^ 63) \<le> UnixMilli (io_now w) \<and> UnixMilli (io_now w) < 2 ^ 63
              \<and> \<bar>UnixMilli (io_now w) - sint (ping_Timestamp req)\<bar> < 2 ^ 53" for s
  proof -
    have "sint (word_of_int (UnixMilli (io_now w)) - ping_Timestamp req :: 64 word)
          = UnixMilli (io_now w) - sint (ping_Timestamp req)"
      using b by (intro latency_exact) auto
    then show ?thesis using b by (simp add: stamped_def float64_exact)
  qed
  show ?thesis
  proof (rule exI[of _ ?sn'], intro conjI)
    show "streamStep lib sn h (Recv msg) w
           = (Continue, h, ?sn',
              if io_sendErr w = None then [(h_stream h, pong req (io_now w))] else [])"
      by (rule step)
    show "pong_OriginalTimestamp
             (case msg_Payload (pong req (io_now w)) of P_PongResponse r \<Rightarrow> r) = ping_Timestamp req"
      by (rule echo)
    show "\<forall>a s. GetStream (streamManager sn) (ping_PeerId req) = Some (a, s) \<longrightarrow>
               GetStream (streamManager ?sn') (ping_PeerId req) = Some (a, stamped s req w)
               \<and> LastHeartbeat (stamped s req w) = io_later w
               \<and> streams (streamManager ?sn') = streams (streamManager sn)
               \<and> (\<forall>b. b \<noteq> a \<longrightarrow> objects (streamManager ?sn') b = objects (streamManager sn) b)"
      using found by blast
    show "GetStream (streamManager sn) (ping_PeerId req) = None \<longrightarrow> ?sn' = sn"
      using none by blast
    show "- (2 ^ 63) \<le> UnixMilli (io_now w) \<and> UnixMilli (io_now w) < 2 ^ 63
              \<and> \<bar>UnixMilli (io_now w) - sint (ping_Timestamp req)\<bar> < 2 ^ 53 \<longrightarrow>
             (\<forall>s. LatencyMs (Stats (stamped s req w))
                   = UnixMilli (io_now w) - sint (ping_Timestamp req))"
      using exact by blast
  qed
qed

section \<open>The session registry\<close>

text \<open>
  What holds of the stream manager at every instant: a peer identifier in the map
  points to an active session object that carries this identifier; an active session
  object is the one its peer identifier points to; no object lies beyond the next unused
  reference. It holds of a new stream manager and every function of the stream manager
  keeps it.
\<close>

definition registry_ok :: "StreamManager \<Rightarrow> bool" where
  "registry_ok sm \<longleftrightarrow>
     (\<forall>p a. streams sm p = Some a \<longrightarrow>
        (\<exists>s. objects sm a = Some s \<and> si_PeerID s = p \<and> IsActive s))
   \<and> (\<forall>a s. objects sm a = Some s \<and> IsActive s \<longrightarrow> streams sm (si_PeerID s) = Some a)
   \<and> (\<forall>a. allocated sm \<le> a \<longrightarrow> objects sm a = None)"

lemma registry_ok_New: "registry_ok NewStreamManager"
  by (simp add: registry_ok_def NewStreamManager_def)

lemma registry_okD1:
  "registry_ok sm \<Longrightarrow> streams sm p = Some a \<Longrightarrow>
   \<exists>s. objects sm a = Some s \<and> si_PeerID s = p \<and> IsActive s"
  by (simp add: registry_ok_def)

lemma registry_okD2:
  "registry_ok sm \<Longrightarrow> objects sm a = Some s \<Longrightarrow> IsActive s \<Longrightarrow> streams sm (si_PeerID s) = Some a"
  by (auto simp: registry_ok_def)

lemma registry_okD3:
  "registry_ok sm \<Longrightarrow> allocated sm \<le> a \<Longrightarrow> objects sm a = None"
  by (simp add: registry_ok_def)

text \<open>At most one active session object per peer identifier.\<close>

lemma registry_ok_unique:
  assumes "registry_ok sm" "objects sm a = Some s" "IsActive s" "objects sm b = Some t" "IsActive t"
    and "si_PeerID s = si_PeerID t"
  shows "a = b"
proof -
  from registry_okD2[OF assms(1,2,3)] registry_okD2[OF assms(1,4,5)] assms(6)
  show ?thesis by simp
qed

lemma entry_registry:
  assumes "registry_ok sm" "entry sm p = Some (a, s)"
  shows "streams sm p = Some a \<and> objects sm a = Some s \<and> si_PeerID s = p \<and> IsActive s"
proof -
  from assms(2) have st: "streams sm p = Some a" and o: "objects sm a = Some s"
    by (auto simp: entry_def split: option.splits)
  from registry_okD1[OF assms(1) st] o show ?thesis using st by auto
qed

lemma entry_None_registry:
  assumes "registry_ok sm" "entry sm p = None"
  shows "streams sm p = None"
proof (cases "streams sm p")
  case None then show ?thesis .
next
  case (Some a)
  from registry_okD1[OF assms(1) Some] Some assms(2) show ?thesis
    by (auto simp: entry_def)
qed

lemma GetStream_registry:
  assumes "registry_ok sm"
  shows "GetStream sm p = entry sm p"
proof (cases "entry sm p")
  case None then show ?thesis by (simp add: GetStream_def)
next
  case (Some x)
  obtain a s where x: "x = (a, s)" by (cases x)
  from entry_registry[OF assms Some[unfolded x]] Some x show ?thesis
    by (simp add: GetStream_def)
qed

lemma registry_ok_counters [simp]:
  "registry_ok (sm\<lparr> activeStreams := x \<rparr>) = registry_ok sm"
  "registry_ok (sm\<lparr> authFailures := x \<rparr>) = registry_ok sm"
  "registry_ok (sm\<lparr> commandsProcessed := x \<rparr>) = registry_ok sm"
  "registry_ok (sm\<lparr> commandsSucceeded := x \<rparr>) = registry_ok sm"
  "registry_ok (sm\<lparr> commandsFailed := x \<rparr>) = registry_ok sm"
  by (simp_all add: registry_ok_def)

lemma registry_ok_modify:
  assumes "registry_ok sm"
    and "\<And>s. si_PeerID (f s) = si_PeerID s" "\<And>s. IsActive (f s) = IsActive s"
  shows "registry_ok (modify sm a f)"
proof (cases "objects sm a")
  case None
  with assms(1) show ?thesis by (simp add: modify_def)
next
  case (Some s0)
  have o: "objects (modify sm a f) = (objects sm)(a \<mapsto> f s0)"
    and st: "streams (modify sm a f) = streams sm"
    and al: "allocated (modify sm a f) = allocated sm"
    using Some by (simp_all add: modify_def)
  show ?thesis
    unfolding registry_ok_def o st al
  proof (intro conjI allI impI)
    fix p b assume "streams sm p = Some b"
    from registry_okD1[OF assms(1) this] obtain s where
      "objects sm b = Some s" "si_PeerID s = p" "IsActive s" by auto
    then show "\<exists>s. ((objects sm)(a \<mapsto> f s0)) b = Some s \<and> si_PeerID s = p \<and> IsActive s"
      using Some assms(2,3) by auto
  next
    fix b s assume h: "((objects sm)(a \<mapsto> f s0)) b = Some s \<and> IsActive s"
    show "streams sm (si_PeerID s) = Some b"
    proof (cases "b = a")
      case True
      with h have "s = f s0" by simp
      with h assms(2,3) have "IsActive s0" "si_PeerID s = si_PeerID s0" by simp_all
      with registry_okD2[OF assms(1) Some] True show ?thesis by simp
    next
      case False
      with h registry_okD2[OF assms(1), of b s] show ?thesis by simp
    qed
  next
    fix b assume "allocated sm \<le> b"
    from registry_okD3[OF assms(1) this] Some show "((objects sm)(a \<mapsto> f s0)) b = None"
      by auto
  qed
qed

lemma registry_ok_UpdateHeartbeat:
  "registry_ok sm \<Longrightarrow> registry_ok (UpdateHeartbeat sm p lat t)"
  by (auto simp: UpdateHeartbeat_def split: option.splits intro!: registry_ok_modify)

lemma registry_ok_UpdateCommandResult:
  "registry_ok sm \<Longrightarrow> registry_ok (UpdateCommandResult sm p ok)"
  by (auto simp: UpdateCommandResult_def Let_def split: option.splits intro!: registry_ok_modify)

lemma registry_ok_SendCommandToPeer:
  "registry_ok sm \<Longrightarrow> registry_ok (fst (snd (SendCommandToPeer sm p c t e)))"
  by (auto simp: SendCommandToPeer_def Let_def split: option.splits intro!: registry_ok_modify)

text \<open>Removing the entry of a peer: the object is marked inactive, the key is deleted.\<close>

lemma registry_ok_remove:
  assumes "registry_ok sm" "streams sm p = Some a"
  shows "registry_ok ((modify sm a (\<lambda>s. s\<lparr> IsActive := False \<rparr>))\<lparr> streams := (streams sm)(p := None) \<rparr>)"
proof -
  from registry_okD1[OF assms] obtain s0 where
    s0: "objects sm a = Some s0" "si_PeerID s0 = p" "IsActive s0" by auto
  have o: "objects (modify sm a (\<lambda>s. s\<lparr> IsActive := False \<rparr>))
           = (objects sm)(a \<mapsto> s0\<lparr> IsActive := False \<rparr>)"
    and al: "allocated (modify sm a (\<lambda>s. s\<lparr> IsActive := False \<rparr>)) = allocated sm"
    using s0 by (simp_all add: modify_def)
  show ?thesis
    unfolding registry_ok_def
  proof (intro conjI allI impI)
    fix q b
    assume "streams ((modify sm a (\<lambda>s. s\<lparr> IsActive := False \<rparr>))\<lparr> streams := (streams sm)(p := None) \<rparr>) q = Some b"
    then have q: "q \<noteq> p" "streams sm q = Some b" by (auto split: if_splits)
    from registry_okD1[OF assms(1) q(2)] obtain s where
      s: "objects sm b = Some s" "si_PeerID s = q" "IsActive s" by auto
    have "b \<noteq> a" using s s0 q by auto
    with s show "\<exists>s. objects ((modify sm a (\<lambda>s. s\<lparr> IsActive := False \<rparr>))\<lparr> streams := (streams sm)(p := None) \<rparr>) b = Some s
                   \<and> si_PeerID s = q \<and> IsActive s"
      by (simp add: o)
  next
    fix b s
    assume "objects ((modify sm a (\<lambda>s. s\<lparr> IsActive := False \<rparr>))\<lparr> streams := (streams sm)(p := None) \<rparr>) b = Some s
            \<and> IsActive s"
    then have h: "b \<noteq> a" "objects sm b = Some s" "IsActive s"
      by (auto simp: o split: if_splits)
    from registry_okD2[OF assms(1) h(2,3)] have k: "streams sm (si_PeerID s) = Some b" .
    with assms(2) h(1) have "si_PeerID s \<noteq> p" by auto
    with k show "streams ((modify sm a (\<lambda>s. s\<lparr> IsActive := False \<rparr>))\<lparr> streams := (streams sm)(p := None) \<rparr>)
                   (si_PeerID s) = Some b"
      by simp
  next
    fix b
    assume "allocated ((modify sm a (\<lambda>s. s\<lparr> IsActive := False \<rparr>))\<lparr> streams := (streams sm)(p := None) \<rparr>) \<le> b"
    then have "allocated sm \<le> b" by (simp add: al)
    from registry_okD3[OF assms(1) this] s0
    show "objects ((modify sm a (\<lambda>s. s\<lparr> IsActive := False \<rparr>))\<lparr> streams := (streams sm)(p := None) \<rparr>) b = None"
      by (auto simp: o)
  qed
qed

lemma streams_modify [simp]: "streams (modify sm a f) = streams sm"
  by (simp add: modify_def split: option.splits)

lemma allocated_modify [simp]: "allocated (modify sm a f) = allocated sm"
  by (simp add: modify_def split: option.splits)

lemma activeStreams_modify [simp]: "activeStreams (modify sm a f) = activeStreams sm"
  by (simp add: modify_def split: option.splits)

lemma registry_ok_UnregisterStream:
  assumes "registry_ok sm"
  shows "registry_ok (UnregisterStream sm p)"
proof (cases "entry sm p")
  case None
  with assms show ?thesis by (simp add: UnregisterStream_def)
next
  case (Some x)
  obtain a s where x: "x = (a, s)" by (cases x)
  from entry_registry[OF assms Some[unfolded x]] have "streams sm p = Some a" by simp
  from registry_ok_remove[OF assms this] Some x show ?thesis
    by (simp add: UnregisterStream_def Let_def)
qed

lemma registry_ok_removeStale:
  assumes "registry_ok sm"
  shows "registry_ok (removeStale sm p)"
proof (cases "streams sm p")
  case None
  with assms show ?thesis by (simp add: removeStale_def)
next
  case (Some a)
  from registry_ok_remove[OF assms Some] Some show ?thesis
    by (simp add: removeStale_def Let_def)
qed

lemma registry_ok_fold_removeStale:
  "registry_ok sm \<Longrightarrow> registry_ok (fold (\<lambda>peerID sm'. removeStale sm' peerID) ps sm)"
  by (induction ps arbitrary: sm) (simp_all add: registry_ok_removeStale)

lemma registry_ok_CheckStaleStreams:
  "registry_ok sm \<Longrightarrow> registry_ok (CheckStaleStreams sm order timeout now)"
  by (simp add: CheckStaleStreams_def Let_def registry_ok_fold_removeStale)

lemma registry_ok_insert:
  assumes "registry_ok sm" "streams sm p = None" "si_PeerID new = p" "IsActive new"
  shows "registry_ok (sm\<lparr> objects := (objects sm)(allocated sm \<mapsto> new),
                          allocated := Suc (allocated sm),
                          streams := (streams sm)(p \<mapsto> allocated sm) \<rparr>)"
proof -
  have fresh: "objects sm (allocated sm) = None"
    using registry_okD3[OF assms(1), of "allocated sm"] by simp
  show ?thesis
    unfolding registry_ok_def
  proof (intro conjI allI impI)
    fix q b
    assume h: "streams (sm\<lparr> objects := (objects sm)(allocated sm \<mapsto> new),
                          allocated := Suc (allocated sm),
                          streams := (streams sm)(p \<mapsto> allocated sm) \<rparr>) q = Some b"
    show "\<exists>s. objects (sm\<lparr> objects := (objects sm)(allocated sm \<mapsto> new),
                          allocated := Suc (allocated sm),
                          streams := (streams sm)(p \<mapsto> allocated sm) \<rparr>) b = Some s
              \<and> si_PeerID s = q \<and> IsActive s"
    proof (cases "q = p")
      case True
      with h assms(3,4) show ?thesis by simp
    next
      case False
      with h have "streams sm q = Some b" by simp
      from registry_okD1[OF assms(1) this] obtain s where
        s: "objects sm b = Some s" "si_PeerID s = q" "IsActive s" by auto
      with fresh have "b \<noteq> allocated sm" by auto
      with s show ?thesis by simp
    qed
  next
    fix b s
    assume h: "objects (sm\<lparr> objects := (objects sm)(allocated sm \<mapsto> new),
                          allocated := Suc (allocated sm),
                          streams := (streams sm)(p \<mapsto> allocated sm) \<rparr>) b = Some s \<and> IsActive s"
    show "streams (sm\<lparr> objects := (objects sm)(allocated sm \<mapsto> new),
                          allocated := Suc (allocated sm),
                          streams := (streams sm)(p \<mapsto> allocated sm) \<rparr>) (si_PeerID s) = Some b"
    proof (cases "b = allocated sm")
      case True
      with h assms(3) show ?thesis by simp
    next
      case False
      with h have o: "objects sm b = Some s" "IsActive s" by simp_all
      from registry_okD2[OF assms(1) o] have k: "streams sm (si_PeerID s) = Some b" .
      with assms(2) have "si_PeerID s \<noteq> p" by auto
      with k show ?thesis by simp
    qed
  next
    fix b
    assume "allocated (sm\<lparr> objects := (objects sm)(allocated sm \<mapsto> new),
                          allocated := Suc (allocated sm),
                          streams := (streams sm)(p \<mapsto> allocated sm) \<rparr>) \<le> b"
    then have "allocated sm \<le> b" "b \<noteq> allocated sm" by simp_all
    with registry_okD3[OF assms(1), of b]
    show "objects (sm\<lparr> objects := (objects sm)(allocated sm \<mapsto> new),
                          allocated := Suc (allocated sm),
                          streams := (streams sm)(p \<mapsto> allocated sm) \<rparr>) b = None"
      by simp
  qed
qed

definition newSession ::
  "string \<Rightarrow> string \<Rightarrow> string \<Rightarrow> string \<Rightarrow> nat \<Rightarrow> time \<Rightarrow> StreamInfo"
where
  "newSession peerID role region publicKey stream now =
     \<lparr> si_PeerID = peerID, si_Role = role, si_Region = region,
       si_SessionID = peerID @ ''-'' @ itoa_int (Unix now), si_Stream = stream,
       LastHeartbeat = now, si_PublicKey = publicKey, IsActive = True,
       Stats = \<lparr> MessagesReceived = 0, MessagesSent = 0, CommandsExecuted = 0,
                 CommandsFailed = 0, LatencyMs = 0, ConnectedSince = now \<rparr> \<rparr>"

lemma RegisterStream_fresh:
  assumes "registry_ok sm" "entry sm p = None"
  shows "RegisterStream sm p role region pk stream now
         = (p @ ''-'' @ itoa_int (Unix now),
            sm\<lparr> objects := (objects sm)(allocated sm \<mapsto> newSession p role region pk stream now),
                 allocated := Suc (allocated sm),
                 streams := (streams sm)(p \<mapsto> allocated sm),
                 activeStreams := activeStreams sm + 1 \<rparr>)"
  using assms(2) by (simp add: RegisterStream_def Let_def newSession_def)

lemma RegisterStream_replace:
  assumes "registry_ok sm" "entry sm p = Some (a0, s0)"
  shows "RegisterStream sm p role region pk stream now
         = (p @ ''-'' @ itoa_int (Unix now),
            sm\<lparr> objects := (objects sm)(a0 \<mapsto> s0\<lparr> IsActive := False \<rparr>,
                                          allocated sm \<mapsto> newSession p role region pk stream now),
                 allocated := Suc (allocated sm),
                 streams := (streams sm)(p \<mapsto> allocated sm),
                 activeStreams := activeStreams sm + 1 \<rparr>)"
proof -
  from entry_registry[OF assms] have o: "objects sm a0 = Some s0" and act: "IsActive s0" by simp_all
  show ?thesis using assms(2) o act
    by (simp add: RegisterStream_def Let_def newSession_def modify_def)
qed

lemma registry_ok_RegisterStream:
  assumes "registry_ok sm"
  shows "registry_ok (snd (RegisterStream sm p role region pk stream now))"
proof (cases "entry sm p")
  case None
  from entry_None_registry[OF assms None] have n: "streams sm p = None" .
  have "registry_ok (sm\<lparr> objects := (objects sm)(allocated sm \<mapsto> newSession p role region pk stream now),
                          allocated := Suc (allocated sm),
                          streams := (streams sm)(p \<mapsto> allocated sm) \<rparr>)"
    using assms n by (rule registry_ok_insert) (simp_all add: newSession_def)
  then show ?thesis by (simp add: RegisterStream_fresh[OF assms None])
next
  case (Some x)
  obtain a0 s0 where x: "x = (a0, s0)" by (cases x)
  note e = Some[unfolded x]
  from entry_registry[OF assms e] have st: "streams sm p = Some a0" and o: "objects sm a0 = Some s0"
    by simp_all
  let ?sm' = "(modify sm a0 (\<lambda>s. s\<lparr> IsActive := False \<rparr>))\<lparr> streams := (streams sm)(p := None) \<rparr>"
  have r: "registry_ok ?sm'" using assms st by (rule registry_ok_remove)
  have "registry_ok (?sm'\<lparr> objects := (objects ?sm')(allocated ?sm' \<mapsto> newSession p role region pk stream now),
                          allocated := Suc (allocated ?sm'),
                          streams := (streams ?sm')(p \<mapsto> allocated ?sm') \<rparr>)"
    using r by (rule registry_ok_insert) (simp_all add: newSession_def)
  moreover have "?sm'\<lparr> objects := (objects ?sm')(allocated ?sm' \<mapsto> newSession p role region pk stream now),
                          allocated := Suc (allocated ?sm'),
                          streams := (streams ?sm')(p \<mapsto> allocated ?sm') \<rparr>
        = sm\<lparr> objects := (objects sm)(a0 \<mapsto> s0\<lparr> IsActive := False \<rparr>,
                                          allocated sm \<mapsto> newSession p role region pk stream now),
                 allocated := Suc (allocated sm),
                 streams := (streams sm)(p \<mapsto> allocated sm) \<rparr>"
    using o by (simp add: modify_def)
  ultimately show ?thesis by (simp add: RegisterStream_replace[OF assms e])
qed

text \<open>
  Registration replaces: the prior session object is marked inactive and is no longer
  the entry of the peer; the entry is the new session, on the new stream.
\<close>

lemma RegisterStream_new_wins:
  assumes "registry_ok sm" "GetStream sm p = Some (a0, s0)"
  shows "objects (snd (RegisterStream sm p role region pk stream now)) a0
           = Some (s0\<lparr> IsActive := False \<rparr>)
       \<and> GetStream (snd (RegisterStream sm p role region pk stream now)) p
           = Some (allocated sm, newSession p role region pk stream now)
       \<and> allocated sm \<noteq> a0"
proof -
  from assms have e: "entry sm p = Some (a0, s0)" by (simp add: GetStream_registry)
  from entry_registry[OF assms(1) e] have o: "objects sm a0 = Some s0" by simp
  with registry_okD3[OF assms(1), of "allocated sm"] have ne: "allocated sm \<noteq> a0" by auto
  show ?thesis using ne
    by (simp add: RegisterStream_replace[OF assms(1) e] GetStream_def entry_def newSession_def)
qed









section \<open>A coordinator and one exit peer\<close>

text \<open>
  The peer \<^verbatim>\<open>peer-us\<close> holds an Ed25519 key pair. \<open>pubkey_b64\<close> is its public key as the
  peer sends it, \<open>pubkey\<close> the 32 bytes it encodes. The peer authenticates with the role
  \<^verbatim>\<open>exit\<close> twice, with the nonces \<open>nonce1\<close> and \<open>nonce2\<close>, and once more with the role
  \<^verbatim>\<open>supernode\<close> and \<open>nonce3\<close>; \<open>sig1_b64\<close>, \<open>sig2_b64\<close> and \<open>sig3_b64\<close> are its signatures of
  the three texts \<^verbatim>\<open>peer-us||role||us||nonce\<close>, and \<open>sig1\<close>, \<open>sig2\<close>, \<open>sig3\<close> the 64 bytes
  each encodes. \<open>DecodeString0\<close> and \<open>Verify0\<close> are what the Go library answers for these
  texts and bytes: the three signatures are genuine.
\<close>

definition pubkey_b64 :: string where
  "pubkey_b64 = ''FujLXd5z3kBxaMHs//g57SVTWQnRyG1/hQrfce7EJoY=''"

definition pubkey :: "8 word list" where
  "pubkey =
     [22, 232, 203, 93, 222, 115, 222, 64, 113, 104, 193, 236, 255, 248, 57, 237,
      37, 83, 89, 9, 209, 200, 109, 127, 133, 10, 223, 113, 238, 196, 38, 134]"

definition nonce1 :: string where "nonce1 = ''ZU4sh9eCDL6xtbVQ9DFmVA==''"
definition nonce2 :: string where "nonce2 = ''6InTC4VCHozIMNFfO1AIwQ==''"
definition nonce3 :: string where "nonce3 = ''gBElE20ypih85CsmMPBtUw==''"

definition sig1_b64 :: string where
  "sig1_b64 = ''gW0BkX3jaXtktqwuSJK3xMv9RZe29C8QKSGuomy9l9M6YZ5VprDgiy40YeLfNIuI+wNQ9v0YfwtkPHVIn7Z6Bg==''"

definition sig2_b64 :: string where
  "sig2_b64 = ''yn893SMRuGnp00pmotQxSYVkTHemib2c0xom31bHHSm88DuvDW0XAKZ5ee6VbMisC4m7hO4MztpljERhrAkbBw==''"

definition sig3_b64 :: string where
  "sig3_b64 = ''jnQY+YZ4tunxgLGX3XQEoYyB39IvBckgK/d2FJlxp64JglD0Nw7GvnnZuDpi2Qho0p+zUcSlHbfJfkeuJ8sfDQ==''"

definition sig1 :: "8 word list" where
  "sig1 =
     [129, 109, 1, 145, 125, 227, 105, 123, 100, 182, 172, 46, 72, 146, 183, 196,
      203, 253, 69, 151, 182, 244, 47, 16, 41, 33, 174, 162, 108, 189, 151, 211,
      58, 97, 158, 85, 166, 176, 224, 139, 46, 52, 97, 226, 223, 52, 139, 136,
      251, 3, 80, 246, 253, 24, 127, 11, 100, 60, 117, 72, 159, 182, 122, 6]"

definition sig2 :: "8 word list" where
  "sig2 =
     [202, 127, 61, 221, 35, 17, 184, 105, 233, 211, 74, 102, 162, 212, 49, 73,
      133, 100, 76, 119, 166, 137, 189, 156, 211, 26, 38, 223, 86, 199, 29, 41,
      188, 240, 59, 175, 13, 109, 23, 0, 166, 121, 121, 238, 149, 108, 200, 172,
      11, 137, 187, 132, 238, 12, 206, 218, 101, 140, 68, 97, 172, 9, 27, 7]"

definition sig3 :: "8 word list" where
  "sig3 =
     [142, 116, 24, 249, 134, 120, 182, 233, 241, 128, 177, 151, 221, 116, 4,
      161, 140, 129, 223, 210, 47, 5, 201, 32, 43, 247, 118, 20, 153, 113, 167,
      174, 9, 130, 80, 244, 55, 14, 198, 190, 121, 217, 184, 58, 98, 217, 8, 104,
      210, 159, 179, 81, 196, 165, 29, 183, 201, 126, 71, 174, 39, 203, 31, 13]"

definition DecodeString0 :: "string \<Rightarrow> string + 8 word list" where
  "DecodeString0 s = (if s = pubkey_b64 then Inr pubkey
                      else if s = sig1_b64 then Inr sig1
                      else if s = sig2_b64 then Inr sig2
                      else if s = sig3_b64 then Inr sig3
                      else Inl ''illegal base64 data at input byte 0'')"

definition Verify0 :: "8 word list \<Rightarrow> string \<Rightarrow> 8 word list \<Rightarrow> bool" where
  "Verify0 publicKey message sig \<longleftrightarrow>
     publicKey = pubkey
     \<and> (message = ''peer-us||exit||us||'' @ nonce1 \<and> sig = sig1
        \<or> message = ''peer-us||exit||us||'' @ nonce2 \<and> sig = sig2
        \<or> message = ''peer-us||supernode||us||'' @ nonce3 \<and> sig = sig3)"

definition lib0 :: stdlib where
  "lib0 = \<lparr> DecodeString = DecodeString0, Verify = Verify0 \<rparr>"

definition sn0 :: SuperNode where
  "sn0 = NewSuperNode ''sn-us'' ''us'' ''192.168.1.46:50052'' ''192.168.1.103:50051''"

definition auth_request :: "string \<Rightarrow> string \<Rightarrow> string \<Rightarrow> AuthRequest" where
  "auth_request role nonce signature =
     \<lparr> ar_PeerId = ''peer-us'', ar_Role = role, ar_PubkeyB64 = pubkey_b64, ar_Region = ''us'',
       ar_Signature = signature, ar_Nonce = nonce \<rparr>"

definition auth1 :: ControlMessage where
  "auth1 = \<lparr> MessageId = ''auth-1700000000000000000'', msg_Timestamp = 1700000000,
             msg_Payload = P_AuthRequest (auth_request ''exit'' nonce1 sig1_b64) \<rparr>"

definition auth2 :: ControlMessage where
  "auth2 = \<lparr> MessageId = ''auth-1700000060000000000'', msg_Timestamp = 1700000060,
             msg_Payload = P_AuthRequest (auth_request ''exit'' nonce2 sig2_b64) \<rparr>"

definition auth3 :: ControlMessage where
  "auth3 = \<lparr> MessageId = ''auth-1700000000000000000'', msg_Timestamp = 1700000000,
             msg_Payload = P_AuthRequest (auth_request ''supernode'' nonce3 sig3_b64) \<rparr>"

text \<open>
  The world at second \<open>secs\<close>: the second reading of the clock comes a microsecond after
  the first, sending succeeds, and the stream map is iterated in the order given.
\<close>

definition world :: "int \<Rightarrow> io" where
  "world secs = \<lparr> io_now = secs * Second, io_later = secs * Second + 1000, io_sendErr = None,
               io_order = [''peer-us''] \<rparr>"

definition auth_ok :: "string \<Rightarrow> int \<Rightarrow> ControlMessage" where
  "auth_ok sessionID secs = \<lparr> MessageId = ''auth-resp-'' @ itoa_int (secs * Second),
     msg_Timestamp = secs,
     msg_Payload = P_AuthResponse \<lparr> aresp_Success = True,
        aresp_Message = ''Authentication successful'', aresp_SessionId = sessionID \<rparr> \<rparr>"

definition session_old :: StreamInfo where
  "session_old = newSession ''peer-us'' ''exit'' ''us'' pubkey_b64 1 (1700000000 * Second)"

definition session_new :: StreamInfo where
  "session_new = newSession ''peer-us'' ''exit'' ''us'' pubkey_b64 2 (1700000060 * Second)"

definition handler_old :: handler where
  "handler_old = \<lparr> h_stream = 1, h_peerID = ''peer-us'', authenticated = True \<rparr>"

definition handler_new :: handler where
  "handler_new = \<lparr> h_stream = 2, h_peerID = ''peer-us'', authenticated = True \<rparr>"

definition sn_first :: SuperNode where
  "sn_first = sn0\<lparr> streamManager :=
     \<lparr> objects = [0 \<mapsto> session_old], allocated = 1, streams = [''peer-us'' \<mapsto> 0],
       activeStreams = 1, authFailures = 0, commandsProcessed = 0, commandsSucceeded = 0,
       commandsFailed = 0 \<rparr> \<rparr>"

definition sn_replaced :: SuperNode where
  "sn_replaced = sn0\<lparr> streamManager :=
     \<lparr> objects = [0 \<mapsto> session_old\<lparr> IsActive := False \<rparr>, 1 \<mapsto> session_new], allocated = 2,
       streams = [''peer-us'' \<mapsto> 1],
       activeStreams = 2, authFailures = 0, commandsProcessed = 0, commandsSucceeded = 0,
       commandsFailed = 0 \<rparr> \<rparr>"

lemma decode_pubkey: "DecodeString0 pubkey_b64 = Inr pubkey"
  by (simp add: DecodeString0_def)

lemma decode_sig1: "DecodeString0 sig1_b64 = Inr sig1"
  by (simp add: DecodeString0_def pubkey_b64_def sig1_b64_def)

lemma decode_sig2: "DecodeString0 sig2_b64 = Inr sig2"
  by (simp add: DecodeString0_def pubkey_b64_def sig1_b64_def sig2_b64_def)

lemma decode_sig3: "DecodeString0 sig3_b64 = Inr sig3"
  by (simp add: DecodeString0_def pubkey_b64_def sig1_b64_def sig2_b64_def sig3_b64_def)

lemma length_pubkey: "length pubkey = 32"
  by (simp add: pubkey_def)

lemma verify1: "verifyAuthSignature lib0 (auth_request ''exit'' nonce1 sig1_b64) = Value None"
  by (simp add: verifyAuthSignature_def auth_request_def lib0_def decode_pubkey decode_sig1
      length_pubkey Verify0_def Let_def)

lemma verify2: "verifyAuthSignature lib0 (auth_request ''exit'' nonce2 sig2_b64) = Value None"
  by (simp add: verifyAuthSignature_def auth_request_def lib0_def decode_pubkey decode_sig2
      length_pubkey Verify0_def Let_def)

lemmas sn_eval = streamStep_def handleAuthRequest_def RegisterStream_def entry_def modify_def
  GetStream_def UnregisterStream_def streamExit_def newHandler_def NewSuperNode_def
  NewStreamManager_def RoleClient_def RoleExit_def RoleHybrid_def Unix_def UnixNano_def
  UnixMilli_def Second_def itoa_int_def itoa.simps digit_def Let_def IncrementAuthFailures_def
  newSession_def

lemma first_auth:
  "streamStep lib0 sn0 (newHandler 1) (Recv auth1) (world 1700000000)
   = (Continue, handler_old, sn_first, [(1, auth_ok ''peer-us-1700000000'' 1700000000)])"
  using verify1
  by (simp add: streamStep_def handleAuthRequest_def auth1_def Let_def RoleClient_def RoleExit_def
      RoleHybrid_def)
     (simp add: auth_request_def sn0_def world_def auth_ok_def session_old_def handler_old_def
      sn_first_def RegisterStream_def entry_def modify_def newHandler_def NewSuperNode_def
      NewStreamManager_def Unix_def UnixNano_def Second_def itoa_int_def itoa.simps digit_def
      Let_def newSession_def)

lemma second_auth:
  "streamStep lib0 sn_first (newHandler 2) (Recv auth2) (world 1700000060)
   = (Continue, handler_new, sn_replaced, [(2, auth_ok ''peer-us-1700000060'' 1700000060)])"
  using verify2
  by (simp add: streamStep_def handleAuthRequest_def auth2_def Let_def RoleClient_def RoleExit_def
      RoleHybrid_def)
     (simp add: auth_request_def sn0_def world_def auth_ok_def session_old_def session_new_def
      handler_new_def sn_first_def sn_replaced_def RegisterStream_def entry_def modify_def
      newHandler_def NewSuperNode_def NewStreamManager_def Unix_def UnixNano_def Second_def
      itoa_int_def itoa.simps digit_def Let_def newSession_def)

lemma replaced_entry:
  "GetStream (streamManager sn_replaced) ''peer-us'' = Some (1, session_new)
   \<and> objects (streamManager sn_replaced) 0 = Some (session_old\<lparr> IsActive := False \<rparr>)"
  by (simp add: sn_replaced_def GetStream_def entry_def session_new_def newSession_def)

lemma old_stream_closed:
  "streamStep lib0 sn_replaced handler_old EOF (world 1700000061)
   = (Return None, handler_old, sn_replaced, [])"
  by (simp add: streamStep_def)

lemma after_cleanup:
  "GetStream (streamManager (streamExit sn_replaced handler_old)) ''peer-us'' = None
   \<and> objects (streamManager (streamExit sn_replaced handler_old)) 1
       = Some (session_new\<lparr> IsActive := False \<rparr>)"
  by (simp add: sn_replaced_def handler_old_def streamExit_def UnregisterStream_def GetStream_def
      entry_def modify_def Let_def)

text \<open>
  C1. A registration does replace the prior session (\<open>RegisterStream_new_wins\<close>) and no two
  active session objects share a peer identifier (\<open>registry_ok_unique\<close>). But the new
  stream does not stay the winner. Peer \<^verbatim>\<open>peer-us\<close> authenticates on stream 1 and, a minute
  later, again on stream 2: the entry of \<^verbatim>\<open>peer-us\<close> is the session of stream 2 and the
  session of stream 1 is inactive. Then stream 1 reaches end of file; its handler returns
  and its deferred \<^verbatim>\<open>UnregisterStream(peerID)\<close> removes whatever session is registered
  under \<^verbatim>\<open>peer-us\<close>, which is the new one: \<^verbatim>\<open>GetStream\<close> finds no session for \<^verbatim>\<open>peer-us\<close>
  although stream 2 is open and authenticated.
\<close>

theorem old_stream_cleanup_removes_new_session:
  "serve lib0 sn0 (newHandler 1) [(Recv auth1, world 1700000000)]
     = (Open, handler_old, sn_first, [(1, auth_ok ''peer-us-1700000000'' 1700000000)])
   \<and> serve lib0 sn_first (newHandler 2) [(Recv auth2, world 1700000060)]
     = (Open, handler_new, sn_replaced, [(2, auth_ok ''peer-us-1700000060'' 1700000060)])
   \<and> GetStream (streamManager sn_replaced) ''peer-us'' = Some (1, session_new)
   \<and> objects (streamManager sn_replaced) 0 = Some (session_old\<lparr> IsActive := False \<rparr>)
   \<and> serve lib0 sn_replaced handler_old [(EOF, world 1700000061)]
     = (Returned None, handler_old, streamExit sn_replaced handler_old, [])
   \<and> GetStream (streamManager (streamExit sn_replaced handler_old)) ''peer-us'' = None
   \<and> objects (streamManager (streamExit sn_replaced handler_old)) 1
       = Some (session_new\<lparr> IsActive := False \<rparr>)
   \<and> authenticated handler_new \<and> h_stream handler_new = si_Stream session_new"
  using first_auth second_auth replaced_entry old_stream_closed after_cleanup
  by (simp add: handler_new_def session_new_def newSession_def)










text \<open>
  C7, as stated, fails. An AuthRequest with role \<^verbatim>\<open>supernode\<close> (a role the program names
  but does not admit), correctly signed, ends the stream with \<^verbatim>\<open>Unauthenticated\<close>, not
  with \<^verbatim>\<open>InvalidArgument\<close>.
\<close>

theorem invalid_role_not_InvalidArgument:
  "streamStep lib0 sn0 (newHandler 1) (Recv auth3) (world 1700000000)
   = (Return (Some (StatusError Unauthenticated ''authentication failed: invalid role: supernode'')),
      newHandler 1,
      sn0\<lparr> streamManager := NewStreamManager\<lparr> authFailures := 1 \<rparr> \<rparr>, [])
   \<and> Unauthenticated \<noteq> InvalidArgument"
  by (simp add: streamStep_def handleAuthRequest_def auth3_def auth_request_def RoleClient_def
      RoleExit_def RoleHybrid_def Let_def newHandler_def IncrementAuthFailures_def sn0_def
      NewSuperNode_def NewStreamManager_def)

theorem invalid_role_is_Unauthenticated_witness:
  "ar_Role (auth_request ''supernode'' nonce3 sig3_b64) \<noteq> RoleClient
   \<and> ar_Role (auth_request ''supernode'' nonce3 sig3_b64) \<noteq> RoleExit
   \<and> ar_Role (auth_request ''supernode'' nonce3 sig3_b64) \<noteq> RoleHybrid
   \<and> msg_Payload auth3 = P_AuthRequest (auth_request ''supernode'' nonce3 sig3_b64)
   \<and> streamStep lib0 sn0 (newHandler 1) (Recv auth3) (world 1700000000)
      = (Return (Some (StatusError Unauthenticated
                         (''authentication failed: invalid role: '' @ ''supernode''))),
         (newHandler 1)\<lparr> h_peerID := [] \<rparr>,
         sn0\<lparr> streamManager := IncrementAuthFailures (streamManager sn0) \<rparr>, [])
   \<and> streams (streamManager (fst (snd (snd
         (streamStep lib0 sn0 (newHandler 1) (Recv auth3) (world 1700000000))))))
       = streams (streamManager sn0)"
proof -
  let ?req = "auth_request ''supernode'' nonce3 sig3_b64"
  have r: "ar_Role ?req \<noteq> RoleClient" "ar_Role ?req \<noteq> RoleExit" "ar_Role ?req \<noteq> RoleHybrid"
    by (simp_all add: auth_request_def RoleClient_def RoleExit_def RoleHybrid_def)
  have p: "msg_Payload auth3 = P_AuthRequest ?req"
    by (simp add: auth3_def)
  have a: "ar_Role ?req = ''supernode''" by (simp add: auth_request_def)
  from invalid_role_is_Unauthenticated[OF r p, of lib0 sn0 "newHandler 1" "world 1700000000"] r p a
  show ?thesis by (auto simp: IncrementAuthFailures_def)
qed

subsection \<open>Pings on the stream of \<^verbatim>\<open>peer-us\<close>\<close>

text \<open>
  Three pings received on stream 1 at second 1700000030, thirty seconds after
  \<^verbatim>\<open>peer-us\<close> has authenticated on it: its own, sent 50 ms earlier; one that names the
  peer \<^verbatim>\<open>peer-eu\<close>, which has no session; and one of its own whose timestamp is the least
  64-bit integer.
\<close>

definition ping_own :: ControlMessage where
  "ping_own = \<lparr> MessageId = ''ping-1700000029950000000'', msg_Timestamp = 1700000029,
     msg_Payload = P_PingRequest \<lparr> ping_Timestamp = 1700000029950, ping_PeerId = ''peer-us'' \<rparr> \<rparr>"

definition ping_other :: ControlMessage where
  "ping_other = \<lparr> MessageId = ''ping-1700000029950000000'', msg_Timestamp = 1700000029,
     msg_Payload = P_PingRequest \<lparr> ping_Timestamp = 1700000029950, ping_PeerId = ''peer-eu'' \<rparr> \<rparr>"

definition ping_least :: ControlMessage where
  "ping_least = \<lparr> MessageId = ''ping-1700000029950000000'', msg_Timestamp = 1700000029,
     msg_Payload = P_PingRequest \<lparr> ping_Timestamp = 0x8000000000000000, ping_PeerId = ''peer-us'' \<rparr> \<rparr>"

lemma session_of_peer_us:
  "GetStream (streamManager sn_first) ''peer-us'' = Some (0, session_old)"
  by (simp add: sn_first_def GetStream_def entry_def session_old_def newSession_def)

lemma no_session_of_peer_eu:
  "GetStream (streamManager sn_first) ''peer-eu'' = None"
  by (simp add: sn_first_def GetStream_def entry_def)

lemma ping_other_step:
  "streamStep lib0 sn_first handler_old (Recv ping_other) (world 1700000030)
   = (Continue, handler_old, sn_first,
      [(1, \<lparr> MessageId = ''pong-1700000030000000000'', msg_Timestamp = 1700000030,
              msg_Payload = P_PongResponse
                \<lparr> pong_Timestamp = 1700000030000, pong_OriginalTimestamp = 1700000029950,
                  pong_PeerId = ''peer-eu'' \<rparr> \<rparr>)])"
  using no_session_of_peer_eu
  by (simp add: streamStep_def handlePingRequest_def ping_other_def handler_old_def Let_def
      UpdateHeartbeat_none world_def Unix_def UnixNano_def UnixMilli_def Second_def itoa_int_def
      itoa.simps digit_def)

lemma ping_least_latency:
  "float64 (sint (word_of_int (UnixMilli (io_now (world 1700000030))) - 0x8000000000000000 :: 64 word))
   \<le> 0"
proof -
  have "sint (word_of_int (UnixMilli (io_now (world 1700000030))) - 0x8000000000000000 :: 64 word) < 0"
    by (simp add: world_def UnixMilli_def Second_def)
  then show ?thesis by (rule float64_nonpos)
qed

lemma ping_least_step:
  "map_option (\<lambda>s. LatencyMs (Stats s) \<le> 0)
     (objects (streamManager (fst (snd (snd
        (streamStep lib0 sn_first handler_old (Recv ping_least) (world 1700000030)))))) 0)
   = Some True"
proof -
  let ?w = "world 1700000030"
  let ?lat = "float64 (sint (word_of_int (UnixMilli (io_now ?w)) - 0x8000000000000000 :: 64 word))"
  let ?sm' = "UpdateHeartbeat (streamManager sn_first) ''peer-us'' ?lat (io_later ?w)"
  have step: "fst (snd (snd (streamStep lib0 sn_first handler_old (Recv ping_least) ?w)))
              = sn_first\<lparr> streamManager := ?sm' \<rparr>"
    by (cases "io_sendErr ?w")
       (simp_all add: streamStep_def handlePingRequest_def ping_least_def handler_old_def Let_def)
  from UpdateHeartbeat_found[OF session_of_peer_us, of ?lat "io_later ?w"]
  have o: "objects ?sm' 0
           = Some (session_old\<lparr> LastHeartbeat := io_later ?w,
                     Stats := (Stats session_old)
                       \<lparr> LatencyMs := ?lat,
                         MessagesReceived := MessagesReceived (Stats session_old) + 1 \<rparr> \<rparr>)"
    by simp
  show ?thesis unfolding step using o ping_least_latency by simp
qed

text \<open>
  C8, as stated, fails twice. The ping that names \<^verbatim>\<open>peer-eu\<close> is answered with a Pong, but the
  session of \<^verbatim>\<open>peer-us\<close>, on whose stream it came, is not touched: its last heartbeat is
  still the time of its registration. And for the ping whose timestamp is the least
  64-bit integer the difference \<open>server_recv_ms - t\<close> is positive, while the latency that
  is recorded is not.
\<close>

theorem ping_with_other_peer_id_or_extreme_timestamp:
  "streamStep lib0 sn_first handler_old (Recv ping_other) (world 1700000030)
   = (Continue, handler_old, sn_first,
      [(1, \<lparr> MessageId = ''pong-1700000030000000000'', msg_Timestamp = 1700000030,
              msg_Payload = P_PongResponse
                \<lparr> pong_Timestamp = 1700000030000, pong_OriginalTimestamp = 1700000029950,
                  pong_PeerId = ''peer-eu'' \<rparr> \<rparr>)])
   \<and> authenticated handler_old
   \<and> GetStream (streamManager sn_first) (h_peerID handler_old) = Some (0, session_old)
   \<and> LastHeartbeat session_old = 1700000000 * Second
   \<and> map_option (\<lambda>s. LatencyMs (Stats s) \<le> 0)
        (objects (streamManager (fst (snd (snd
           (streamStep lib0 sn_first handler_old (Recv ping_least) (world 1700000030)))))) 0)
      = Some True
   \<and> UnixMilli (io_now (world 1700000030)) - sint (0x8000000000000000 :: 64 word)
      = 9223373736854805808"
  using ping_other_step ping_least_step session_of_peer_us
  by (simp add: handler_old_def session_old_def newSession_def world_def UnixMilli_def Second_def)

theorem ping_echoes_timestamp_and_stamps_heartbeat_witness:
  "authenticated handler_old
   \<and> msg_Payload ping_own = P_PingRequest \<lparr> ping_Timestamp = 1700000029950, ping_PeerId = ''peer-us'' \<rparr>
   \<and> GetStream (streamManager sn_first) ''peer-us'' = Some (0, session_old)
   \<and> (\<exists>sn'. streamStep lib0 sn_first handler_old (Recv ping_own) (world 1700000030)
         = (Continue, handler_old, sn',
            [(1, \<lparr> MessageId = ''pong-1700000030000000000'', msg_Timestamp = 1700000030,
                    msg_Payload = P_PongResponse
                      \<lparr> pong_Timestamp = 1700000030000, pong_OriginalTimestamp = 1700000029950,
                        pong_PeerId = ''peer-us'' \<rparr> \<rparr>)])
       \<and> map_option LastHeartbeat (objects (streamManager sn') 0) = Some (1700000030 * Second + 1000)
       \<and> map_option (\<lambda>s. LatencyMs (Stats s)) (objects (streamManager sn') 0) = Some 50)"
proof -
  let ?req = "\<lparr> ping_Timestamp = 1700000029950, ping_PeerId = ''peer-us'' \<rparr>"
  let ?w = "world 1700000030"
  have a: "authenticated handler_old" by (simp add: handler_old_def)
  have p: "msg_Payload ping_own = P_PingRequest ?req" by (simp add: ping_own_def)
  have g: "GetStream (streamManager sn_first) (ping_PeerId ?req) = Some (0, session_old)"
    using session_of_peer_us by simp
  have b: "- (2 ^ 63) \<le> UnixMilli (io_now ?w) \<and> UnixMilli (io_now ?w) < 2 ^ 63
           \<and> \<bar>UnixMilli (io_now ?w) - sint (ping_Timestamp ?req)\<bar> < 2 ^ 53"
    by (simp add: world_def UnixMilli_def Second_def)
  from ping_echoes_timestamp_and_stamps_heartbeat[OF a p, of lib0 sn_first ?w]
  obtain sn' where
    s: "streamStep lib0 sn_first handler_old (Recv ping_own) ?w
        = (Continue, handler_old, sn',
           if io_sendErr ?w = None then [(h_stream handler_old, pong ?req (io_now ?w))] else [])"
    and f: "\<forall>a s. GetStream (streamManager sn_first) (ping_PeerId ?req) = Some (a, s) \<longrightarrow>
               GetStream (streamManager sn') (ping_PeerId ?req) = Some (a, stamped s ?req ?w)
               \<and> LastHeartbeat (stamped s ?req ?w) = io_later ?w
               \<and> streams (streamManager sn') = streams (streamManager sn_first)
               \<and> (\<forall>b. b \<noteq> a \<longrightarrow> objects (streamManager sn') b = objects (streamManager sn_first) b)"
    and l: "- (2 ^ 63) \<le> UnixMilli (io_now ?w) \<and> UnixMilli (io_now ?w) < 2 ^ 63
              \<and> \<bar>UnixMilli (io_now ?w) - sint (ping_Timestamp ?req)\<bar> < 2 ^ 53 \<longrightarrow>
             (\<forall>s. LatencyMs (Stats (stamped s ?req ?w))
                   = UnixMilli (io_now ?w) - sint (ping_Timestamp ?req))"
    by blast
  from f g have g': "GetStream (streamManager sn') ''peer-us'' = Some (0, stamped session_old ?req ?w)"
    and h: "LastHeartbeat (stamped session_old ?req ?w) = io_later ?w"
    by simp_all
  from g' have o: "objects (streamManager sn') 0 = Some (stamped session_old ?req ?w)"
    by (auto simp: GetStream_def entry_def split: option.splits if_splits)
  from l b have lat: "LatencyMs (Stats (stamped session_old ?req ?w))
                      = UnixMilli (io_now ?w) - sint (ping_Timestamp ?req)"
    by blast
  have "streamStep lib0 sn_first handler_old (Recv ping_own) ?w
         = (Continue, handler_old, sn',
            [(1, \<lparr> MessageId = ''pong-1700000030000000000'', msg_Timestamp = 1700000030,
                    msg_Payload = P_PongResponse
                      \<lparr> pong_Timestamp = 1700000030000, pong_OriginalTimestamp = 1700000029950,
                        pong_PeerId = ''peer-us'' \<rparr> \<rparr>)])"
    using s by (simp add: handler_old_def world_def pong_def Unix_def UnixNano_def UnixMilli_def
        Second_def itoa_int_def itoa.simps digit_def)
  moreover have "map_option LastHeartbeat (objects (streamManager sn') 0)
                 = Some (1700000030 * Second + 1000)"
    using o h by (simp add: world_def)
  moreover have "map_option (\<lambda>s. LatencyMs (Stats s)) (objects (streamManager sn') 0) = Some 50"
    using o lat by (simp add: world_def UnixMilli_def Second_def)
  ultimately show ?thesis using a p session_of_peer_us by blast
qed

section \<open>Directory: \<^verbatim>\<open>base/server/base_node.go\<close>\<close>

text \<open>
  \<^verbatim>\<open>SuperNodeInfo\<close> and the request messages are those of \<^verbatim>\<open>base/proto\<close>. Load and
  capacity are only compared, and the heartbeat is a number of seconds stamped by the
  directory itself, so all three are integers here.
\<close>

record SuperNodeInfo =
  SupernodeId :: string
  sni_Region :: string
  IpAddress :: string
  Port :: int
  CurrentLoad :: int
  MaxCapacity :: int
  sni_LastHeartbeat :: int






text \<open>
  The sort of \<^verbatim>\<open>RequestExitRegion\<close>: for every \<open>i\<close>, every later position \<open>j\<close> whose load is
  smaller is exchanged with position \<open>i\<close>. \<open>sortInner\<close> is the inner loop from \<open>j\<close> on,
  \<open>sortOuter\<close> the outer loop from \<open>i\<close> on.
\<close>

function sortInner :: "nat \<Rightarrow> nat \<Rightarrow> SuperNodeInfo list \<Rightarrow> SuperNodeInfo list" where
  "sortInner i j candidates =
     (if j < length candidates
      then sortInner i (j + 1)
             (if CurrentLoad (candidates ! i) > CurrentLoad (candidates ! j)
              then candidates[i := candidates ! j, j := candidates ! i]
              else candidates)
      else candidates)"
  by pat_completeness auto
termination
  by (relation "measure (\<lambda>(i, j, candidates). length candidates - j)") auto

declare sortInner.simps [simp del]

lemma length_sortInner [simp]: "length (sortInner i j c) = length c"
  by (induction i j c rule: sortInner.induct) (subst sortInner.simps, auto)


















subsection \<open>A directory with three coordinators\<close>


definition registered :: "string \<Rightarrow> int \<Rightarrow> SuperNodeInfo" where
  "registered ident load =
     \<lparr> SupernodeId = ident, sni_Region = ''eu'', IpAddress = ''192.0.2.1'', Port = 50052,
       CurrentLoad = load, MaxCapacity = 10, sni_LastHeartbeat = 1000 \<rparr>"







lemma CurrentLoad_registered [simp]: "CurrentLoad (registered ident load) = load"
  by (simp add: registered_def)




end
